theory Spec2Isabelle
  imports Main
begin

section \<open>Data model (schema.ts, db/schema.ts)\<close>

text \<open>
  The four closed enumerations of the schema. The complaint status shares the tag
  \<open>UNDER_REPAIR\<close> with the asset condition, so the status constructors carry the
  prefix \<open>CS_\<close>. The ledger stores the tags as text; the \<open>_str\<close> functions give the text.
\<close>

datatype asset_condition = NEW | GOOD | UNDER_REPAIR | DAMAGED

datatype asset_category =
  MONITOR | CPU | AC | CHAIR | TABLE | DISPENSER | CCTV | ROUTER | LAN_CABLE | OTHER

datatype user_role = ADMIN | EMPLOYEE

datatype complaint_status = CS_NEEDS_REPAIR | CS_URGENT | CS_UNDER_REPAIR | CS_RESOLVED

fun condition_str :: "asset_condition \<Rightarrow> string" where
  "condition_str NEW = ''NEW''"
| "condition_str GOOD = ''GOOD''"
| "condition_str UNDER_REPAIR = ''UNDER_REPAIR''"
| "condition_str DAMAGED = ''DAMAGED''"

fun category_str :: "asset_category \<Rightarrow> string" where
  "category_str MONITOR = ''MONITOR''"
| "category_str CPU = ''CPU''"
| "category_str AC = ''AC''"
| "category_str CHAIR = ''CHAIR''"
| "category_str TABLE = ''TABLE''"
| "category_str DISPENSER = ''DISPENSER''"
| "category_str CCTV = ''CCTV''"
| "category_str ROUTER = ''ROUTER''"
| "category_str LAN_CABLE = ''LAN_CABLE''"
| "category_str OTHER = ''OTHER''"

fun status_str :: "complaint_status \<Rightarrow> string" where
  "status_str CS_NEEDS_REPAIR = ''NEEDS_REPAIR''"
| "status_str CS_URGENT = ''URGENT''"
| "status_str CS_UNDER_REPAIR = ''UNDER_REPAIR''"
| "status_str CS_RESOLVED = ''RESOLVED''"

text \<open>Instants are milliseconds since the epoch, as a JavaScript \<open>Date\<close> holds them.\<close>

type_synonym time = int

text \<open>
  One record per table row. A nullable column is an \<open>option\<close>. The field names are
  the column names, prefixed by a letter for the table, since several tables share the
  names \<open>id\<close>, \<open>asset_id\<close>, \<open>description\<close> and the timestamps.
\<close>

record asset =
  a_id :: string
  a_name :: string
  a_description :: "string option"
  a_category :: asset_category
  a_condition :: asset_condition
  a_owner :: "string option"
  a_photo_url :: "string option"
  a_qr_code :: string
  a_is_archived :: bool
  a_created_at :: time
  a_updated_at :: time

record user =
  u_id :: string
  u_email :: string
  u_password_hash :: string
  u_role :: user_role
  u_full_name :: string
  u_is_active :: bool
  u_created_at :: time
  u_updated_at :: time

record complaint =
  c_id :: string
  c_asset_id :: string
  c_complainant_name :: string
  c_status :: complaint_status
  c_description :: string
  c_created_at :: time
  c_updated_at :: time

record asset_history =
  h_id :: string
  h_asset_id :: string
  h_field_name :: string
  h_old_value :: "string option"
  h_new_value :: "string option"
  h_changed_by :: "string option"
  h_changed_at :: time

record maintenance_schedule =
  m_id :: string
  m_asset_id :: string
  m_title :: string
  m_description :: "string option"
  m_scheduled_date :: time
  m_is_completed :: bool
  m_created_by :: string
  m_created_at :: time
  m_updated_at :: time

record user_activity_log =
  l_id :: string
  l_user_id :: string
  l_action :: string
  l_entity_type :: string
  l_entity_id :: "string option"
  l_details :: "string option"
  l_timestamp :: time

text \<open>The relational store: one list of rows per table, in insertion order.\<close>

record store =
  assetsTable :: "asset list"
  usersTable :: "user list"
  complaintsTable :: "complaint list"
  assetHistoryTable :: "asset_history list"
  maintenanceSchedulesTable :: "maintenance_schedule list"
  userActivityLogsTable :: "user_activity_log list"

section \<open>The environment of a handler call\<close>

text \<open>
  A handler reads the clock (\<open>new Date()\<close>), draws identifiers (\<open>uuidv4\<close>,
  \<open>randomUUID\<close>, \<open>randomBytes\<close>) and awaits store operations, each of which may
  reject. The environment fixes all three for one call: \<open>clock env k\<close> is what the
  \<open>k\<close>-th clock read of the handler returns, \<open>new_id env k\<close> the \<open>k\<close>-th generated
  identifier, and \<open>db_fails env k\<close> says that the \<open>k\<close>-th store operation of the
  handler, counted in source order from 0, rejects. Generated identifiers are taken as
  drawn: a collision with a stored key is one of the rejections \<open>db_fails\<close> stands for.

  No handler opens a transaction, so whatever a handler wrote before an exception stays
  written: a handler maps a store to a result and the store it leaves behind, also when
  the result is an error.
\<close>

record env =
  clock :: "nat \<Rightarrow> time"
  new_id :: "nat \<Rightarrow> string"
  db_fails :: "nat \<Rightarrow> bool"

text \<open>
  The handlers throw \<open>Error\<close> objects that differ in their message only; the
  constructors name the kinds: \<open>NotFound\<close> for the messages ending in "not found",
  \<open>InvalidState\<close> for "is not archived", \<open>UniquenessViolation\<close> for an insert that
  the store refuses on a unique column, \<open>StoreFailure\<close> for any other rejection of a
  store operation.
\<close>

datatype error = NotFound | InvalidState | UniquenessViolation | StoreFailure

type_synonym 'a outcome = "(error + 'a) \<times> store"

section \<open>Store operations\<close>

text \<open>\<open>select().from(t).where(p)\<close> followed by \<open>[0]\<close>: the first matching row, if any.\<close>

definition select_first :: "('r \<Rightarrow> bool) \<Rightarrow> 'r list \<Rightarrow> 'r option" where
  "select_first p t = (case filter p t of [] \<Rightarrow> None | r # _ \<Rightarrow> Some r)"

text \<open>\<open>update(t).set(f).where(p)\<close>: every matching row is rewritten in place.\<close>

definition update_where :: "('r \<Rightarrow> bool) \<Rightarrow> ('r \<Rightarrow> 'r) \<Rightarrow> 'r list \<Rightarrow> 'r list" where
  "update_where p f t = map (\<lambda>r. if p r then f r else r) t"

text \<open>\<open>.returning()\<close> of that update: the rewritten rows.\<close>

definition returning :: "('r \<Rightarrow> bool) \<Rightarrow> ('r \<Rightarrow> 'r) \<Rightarrow> 'r list \<Rightarrow> 'r list" where
  "returning p f t = map f (filter p t)"

text \<open>\<open>delete(t).where(p)\<close>.\<close>

definition delete_where :: "('r \<Rightarrow> bool) \<Rightarrow> 'r list \<Rightarrow> 'r list" where
  "delete_where p t = filter (\<lambda>r. \<not> p r) t"

text \<open>
  The object handed to \<open>update(assetsTable).set(...)\<close>: a key that is present is
  \<open>Some\<close>. \<open>keys_count\<close> is \<open>Object.keys(updateData).length\<close>.
\<close>

record asset_update =
  upd_name :: "string option"
  upd_description :: "string option option"
  upd_category :: "asset_category option"
  upd_condition :: "asset_condition option"
  upd_owner :: "string option option"
  upd_photo_url :: "string option option"
  upd_is_archived :: "bool option"
  upd_updated_at :: "time option"

definition no_update :: asset_update where
  "no_update = \<lparr>upd_name = None, upd_description = None, upd_category = None,
     upd_condition = None, upd_owner = None, upd_photo_url = None,
     upd_is_archived = None, upd_updated_at = None\<rparr>"

definition opt_count :: "'a option \<Rightarrow> nat" where
  "opt_count x = (case x of None \<Rightarrow> 0 | Some _ \<Rightarrow> 1)"

definition keys_count :: "asset_update \<Rightarrow> nat" where
  "keys_count d = opt_count (upd_name d) + opt_count (upd_description d)
     + opt_count (upd_category d) + opt_count (upd_condition d) + opt_count (upd_owner d)
     + opt_count (upd_photo_url d) + opt_count (upd_is_archived d)
     + opt_count (upd_updated_at d)"

definition set_asset :: "asset_update \<Rightarrow> asset \<Rightarrow> asset" where
  "set_asset d a = a\<lparr>
     a_name := (case upd_name d of None \<Rightarrow> a_name a | Some v \<Rightarrow> v),
     a_description := (case upd_description d of None \<Rightarrow> a_description a | Some v \<Rightarrow> v),
     a_category := (case upd_category d of None \<Rightarrow> a_category a | Some v \<Rightarrow> v),
     a_condition := (case upd_condition d of None \<Rightarrow> a_condition a | Some v \<Rightarrow> v),
     a_owner := (case upd_owner d of None \<Rightarrow> a_owner a | Some v \<Rightarrow> v),
     a_photo_url := (case upd_photo_url d of None \<Rightarrow> a_photo_url a | Some v \<Rightarrow> v),
     a_is_archived := (case upd_is_archived d of None \<Rightarrow> a_is_archived a | Some v \<Rightarrow> v),
     a_updated_at := (case upd_updated_at d of None \<Rightarrow> a_updated_at a | Some v \<Rightarrow> v)\<rparr>"

section \<open>updateAsset (handlers/update\_asset.ts)\<close>

text \<open>
  The input: an absent optional field is \<open>None\<close>; for a nullable field \<open>Some None\<close>
  is an explicit \<open>null\<close>.
\<close>

record update_asset_input =
  ua_id :: string
  ua_name :: "string option"
  ua_description :: "string option option"
  ua_category :: "asset_category option"
  ua_condition :: "asset_condition option"
  ua_owner :: "string option option"
  ua_photo_url :: "string option option"

record change =
  field_name :: string
  old_value :: "string option"
  new_value :: "string option"

text \<open>
  A field is staged when it is provided and differs from the stored value
  (\<open>input.f !== undefined && input.f !== existingAsset.f\<close>).
\<close>

definition staged :: "'a option \<Rightarrow> 'a \<Rightarrow> 'a option" where
  "staged i cur = (case i of None \<Rightarrow> None | Some v \<Rightarrow> if v \<noteq> cur then Some v else None)"

definition updateData_of :: "time \<Rightarrow> update_asset_input \<Rightarrow> asset \<Rightarrow> asset_update" where
  "updateData_of now i a = \<lparr>
     upd_name = staged (ua_name i) (a_name a),
     upd_description = staged (ua_description i) (a_description a),
     upd_category = staged (ua_category i) (a_category a),
     upd_condition = staged (ua_condition i) (a_condition a),
     upd_owner = staged (ua_owner i) (a_owner a),
     upd_photo_url = staged (ua_photo_url i) (a_photo_url a),
     upd_is_archived = None,
     upd_updated_at = Some now\<rparr>"

definition change_of :: "string \<Rightarrow> ('a \<Rightarrow> string option) \<Rightarrow> 'a option \<Rightarrow> 'a \<Rightarrow> change list" where
  "change_of f str i cur = (case staged i cur of None \<Rightarrow> []
     | Some v \<Rightarrow> [\<lparr>field_name = f, old_value = str cur, new_value = str v\<rparr>])"

definition changes_of :: "update_asset_input \<Rightarrow> asset \<Rightarrow> change list" where
  "changes_of i a =
     change_of ''name'' Some (ua_name i) (a_name a)
   @ change_of ''description'' id (ua_description i) (a_description a)
   @ change_of ''category'' (\<lambda>c. Some (category_str c)) (ua_category i) (a_category a)
   @ change_of ''condition'' (\<lambda>c. Some (condition_str c)) (ua_condition i) (a_condition a)
   @ change_of ''owner'' id (ua_owner i) (a_owner a)
   @ change_of ''photo_url'' id (ua_photo_url i) (a_photo_url a)"

text \<open>
  The ledger rows of \<open>changes.map(...)\<close>: the \<open>k\<close>-th entry draws the \<open>k\<close>-th
  identifier and reads the clock once more (read 0 is the \<open>updated_at\<close> of the update).
\<close>

definition historyEntries_of :: "env \<Rightarrow> string \<Rightarrow> change list \<Rightarrow> asset_history list" where
  "historyEntries_of e aid chs = map (\<lambda>(k, ch).
     \<lparr>h_id = new_id e k, h_asset_id = aid, h_field_name = field_name ch,
      h_old_value = old_value ch, h_new_value = new_value ch, h_changed_by = None,
      h_changed_at = clock e (Suc k)\<rparr>) (enumerate 0 chs)"

text \<open>
  Store operations: 0 the select of the current row, 1 the update, 2 the insert of the
  ledger rows. After a successful update the returned list holds the rewritten row; the
  empty case cannot arise in a sequential run and is given the row computed from
  \<open>existingAsset\<close>.
\<close>

definition updateAsset :: "env \<Rightarrow> update_asset_input \<Rightarrow> store \<Rightarrow> asset outcome" where
  "updateAsset e i s =
    (if db_fails e 0 then (Inl StoreFailure, s)
     else case select_first (\<lambda>a. a_id a = ua_id i) (assetsTable s) of
       None \<Rightarrow> (Inl NotFound, s)
     | Some existingAsset \<Rightarrow>
        (let updateData = updateData_of (clock e 0) i existingAsset;
             changes = changes_of i existingAsset
         in if keys_count updateData = 1 then (Inr existingAsset, s)
            else if db_fails e 1 then (Inl StoreFailure, s)
            else
              (let s1 = s\<lparr>assetsTable :=
                          update_where (\<lambda>a. a_id a = ua_id i) (set_asset updateData) (assetsTable s)\<rparr>;
                   updatedAsset =
                     (case returning (\<lambda>a. a_id a = ua_id i) (set_asset updateData) (assetsTable s) of
                        [] \<Rightarrow> set_asset updateData existingAsset | r # _ \<Rightarrow> r)
               in if 0 < length changes then
                    (if db_fails e 2 then (Inl StoreFailure, s1)
                     else (Inr updatedAsset,
                           s1\<lparr>assetHistoryTable :=
                                assetHistoryTable s1 @ historyEntries_of e (ua_id i) changes\<rparr>))
                  else (Inr updatedAsset, s1))))"

section \<open>updateComplaint (handlers/update\_complaint.ts)\<close>

record update_complaint_input =
  uc_id :: string
  uc_status :: "complaint_status option"
  uc_description :: "string option"

text \<open>
  \<open>updateData\<close> always holds \<open>updated_at\<close>, and \<open>status\<close> and \<open>description\<close> when
  the input provides them; \<open>set_complaint\<close> is \<open>.set(updateData)\<close> on one row.
\<close>

definition set_complaint :: "time \<Rightarrow> update_complaint_input \<Rightarrow> complaint \<Rightarrow> complaint" where
  "set_complaint now i c = c\<lparr>
     c_status := (case uc_status i of None \<Rightarrow> c_status c | Some v \<Rightarrow> v),
     c_description := (case uc_description i of None \<Rightarrow> c_description c | Some v \<Rightarrow> v),
     c_updated_at := now\<rparr>"

definition status_row :: "env \<Rightarrow> complaint \<Rightarrow> complaint_status \<Rightarrow> asset_history" where
  "status_row e c st =
     \<lparr>h_id = new_id e 0, h_asset_id = c_asset_id c, h_field_name = ''complaint_status'',
      h_old_value = Some (status_str (c_status c)), h_new_value = Some (status_str st),
      h_changed_by = None, h_changed_at = clock e 1\<rparr>"

definition condition_row :: "env \<Rightarrow> complaint \<Rightarrow> asset_history" where
  "condition_row e c =
     \<lparr>h_id = new_id e 1, h_asset_id = c_asset_id c, h_field_name = ''condition'',
      h_old_value = Some ''UNDER_REPAIR'', h_new_value = Some ''GOOD'',
      h_changed_by = None, h_changed_at = clock e 3\<rparr>"

text \<open>
  Lines 57 to 98, entered when the new status is \<open>RESOLVED\<close>: store operations 3 (the
  complaints of the asset, read after the complaint was rewritten), 4 (the asset),
  5 (the asset update) and 6 (the ledger row of the condition).
\<close>

definition heal_asset :: "env \<Rightarrow> string \<Rightarrow> complaint \<Rightarrow> store \<Rightarrow> unit outcome" where
  "heal_asset e cid complaint s =
    (if db_fails e 3 then (Inl StoreFailure, s)
     else
      (let otherComplaints =
             filter (\<lambda>c. c_asset_id c = c_asset_id complaint) (complaintsTable s);
           hasUnresolvedComplaints =
             list_ex (\<lambda>c. c_id c \<noteq> cid \<and> c_status c \<noteq> CS_RESOLVED) otherComplaints
       in if \<not> hasUnresolvedComplaints then
            (if db_fails e 4 then (Inl StoreFailure, s)
             else case filter (\<lambda>a. a_id a = c_asset_id complaint) (assetsTable s) of
               [] \<Rightarrow> (Inr (), s)
             | a # _ \<Rightarrow>
                 if a_condition a = UNDER_REPAIR then
                   (if db_fails e 5 then (Inl StoreFailure, s)
                    else
                     (let s1 = s\<lparr>assetsTable :=
                                update_where (\<lambda>a. a_id a = c_asset_id complaint)
                                  (set_asset (no_update\<lparr>upd_condition := Some GOOD,
                                                upd_updated_at := Some (clock e 2)\<rparr>))
                                  (assetsTable s)\<rparr>
                      in if db_fails e 6 then (Inl StoreFailure, s1)
                         else (Inr (), s1\<lparr>assetHistoryTable :=
                                 assetHistoryTable s1 @ [condition_row e complaint]\<rparr>)))
                 else (Inr (), s))
          else (Inr (), s)))"

text \<open>
  Lines 43 to 99. \<open>input.status &&\<close> holds for every provided status, since no tag
  is the empty string. Store operation 2 is the insert of the status row.
\<close>

definition log_status_change ::
    "env \<Rightarrow> update_complaint_input \<Rightarrow> complaint \<Rightarrow> store \<Rightarrow> unit outcome" where
  "log_status_change e i complaint s =
    (case uc_status i of
       None \<Rightarrow> (Inr (), s)
     | Some st \<Rightarrow>
        if st \<noteq> c_status complaint then
          (if db_fails e 2 then (Inl StoreFailure, s)
           else
            (let s1 = s\<lparr>assetHistoryTable :=
                         assetHistoryTable s @ [status_row e complaint st]\<rparr>
             in if st = CS_RESOLVED then heal_asset e (uc_id i) complaint s1
                else (Inr (), s1)))
        else (Inr (), s))"

text \<open>
  The handler: store operation 0 reads the complaint, 1 rewrites it (always, with the
  clock read 0 as \<open>updated_at\<close>), then the status change is logged.
\<close>

definition updateComplaint :: "env \<Rightarrow> update_complaint_input \<Rightarrow> store \<Rightarrow> complaint outcome" where
  "updateComplaint e i s =
    (if db_fails e 0 then (Inl StoreFailure, s)
     else case select_first (\<lambda>c. c_id c = uc_id i) (complaintsTable s) of
       None \<Rightarrow> (Inl NotFound, s)
     | Some complaint \<Rightarrow>
        if db_fails e 1 then (Inl StoreFailure, s)
        else
         (let s1 = s\<lparr>complaintsTable :=
                      update_where (\<lambda>c. c_id c = uc_id i) (set_complaint (clock e 0) i)
                        (complaintsTable s)\<rparr>;
              updatedComplaint =
                (case returning (\<lambda>c. c_id c = uc_id i) (set_complaint (clock e 0) i)
                        (complaintsTable s) of
                   [] \<Rightarrow> set_complaint (clock e 0) i complaint | r # _ \<Rightarrow> r)
          in case log_status_change e i complaint s1 of
               (Inl err, s2) \<Rightarrow> (Inl err, s2)
             | (Inr _, s2) \<Rightarrow> (Inr updatedComplaint, s2)))"

section \<open>restoreAsset (handlers/restore\_asset.ts)\<close>

text \<open>
  The users table declares \<open>id\<close> as primary key and \<open>email\<close> as unique
  (db/schema.ts, lines 30 and 31): an insert of a row whose id or email is already
  stored is refused by the store.
\<close>

definition insert_user :: "user \<Rightarrow> user list \<Rightarrow> error + user list" where
  "insert_user u t =
    (if list_ex (\<lambda>r. u_id r = u_id u \<or> u_email r = u_email u) t then Inl UniquenessViolation
     else Inr (t @ [u]))"

definition systemUserId :: string where
  "systemUserId = ''system''"

text \<open>The row inserted for the system actor; the store fills both timestamps.\<close>

definition system_user :: "time \<Rightarrow> user" where
  "system_user now =
     \<lparr>u_id = systemUserId, u_email = ''system@internal.com'', u_password_hash = ''N/A'',
      u_role = ADMIN, u_full_name = ''System User'', u_is_active = False,
      u_created_at = now, u_updated_at = now\<rparr>"

definition restore_log :: "env \<Rightarrow> string \<Rightarrow> asset \<Rightarrow> user_activity_log" where
  "restore_log e aid restoredAsset =
     \<lparr>l_id = new_id e 0, l_user_id = systemUserId, l_action = ''RESTORE_ASSET'',
      l_entity_type = ''ASSET'', l_entity_id = Some aid,
      l_details = Some (''Asset '' @ [CHR 0x22] @ a_name restoredAsset @ [CHR 0x22]
                        @ '' restored from archive''),
      l_timestamp = clock e 2\<rparr>"

text \<open>
  Lines 36 to 67: store operation 2 looks the system user up by id, 3 inserts it when
  the lookup is empty (the store's clock is read 1), 4 inserts the activity-log row.
\<close>

definition log_restoration :: "env \<Rightarrow> string \<Rightarrow> asset \<Rightarrow> store \<Rightarrow> asset outcome" where
  "log_restoration e aid restoredAsset s =
    (if db_fails e 2 then (Inl StoreFailure, s)
     else
      (let ensured =
         (if filter (\<lambda>u. u_id u = systemUserId) (usersTable s) = [] then
            (if db_fails e 3 then (Inl StoreFailure, s)
             else case insert_user (system_user (clock e 1)) (usersTable s) of
               Inl err \<Rightarrow> (Inl err, s)
             | Inr t \<Rightarrow> (Inr (), s\<lparr>usersTable := t\<rparr>))
          else (Inr (), s))
       in case ensured of
            (Inl err, s1) \<Rightarrow> (Inl err, s1)
          | (Inr _, s1) \<Rightarrow>
              if db_fails e 4 then (Inl StoreFailure, s1)
              else (Inr restoredAsset,
                    s1\<lparr>userActivityLogsTable :=
                         userActivityLogsTable s1 @ [restore_log e aid restoredAsset]\<rparr>)))"

text \<open>
  The handler: store operation 0 reads the asset, 1 clears the flag. After a successful
  update the returned list holds the rewritten row; the empty case cannot arise in a
  sequential run and is given the row computed from \<open>existingAsset\<close>.
\<close>

definition restoreAsset :: "env \<Rightarrow> string \<Rightarrow> store \<Rightarrow> asset outcome" where
  "restoreAsset e aid s =
    (if db_fails e 0 then (Inl StoreFailure, s)
     else case select_first (\<lambda>a. a_id a = aid) (assetsTable s) of
       None \<Rightarrow> (Inl NotFound, s)
     | Some existingAsset \<Rightarrow>
        if \<not> a_is_archived existingAsset then (Inl InvalidState, s)
        else if db_fails e 1 then (Inl StoreFailure, s)
        else
         (let d = no_update\<lparr>upd_is_archived := Some False,
                             upd_updated_at := Some (clock e 0)\<rparr>;
              s1 = s\<lparr>assetsTable :=
                      update_where (\<lambda>a. a_id a = aid) (set_asset d) (assetsTable s)\<rparr>;
              restoredAsset =
                (case returning (\<lambda>a. a_id a = aid) (set_asset d) (assetsTable s) of
                   [] \<Rightarrow> set_asset d existingAsset | r # _ \<Rightarrow> r)
          in log_restoration e aid restoredAsset s1))"

section \<open>deleteAsset (handlers/delete\_asset.ts)\<close>

text \<open>
  Store operation 0 reads the asset; on the permanent path 1, 2 and 3 delete the
  complaints, the ledger rows and the maintenance schedules of the asset and 4 deletes
  the asset row; on the soft path 5 sets the archive flag. The result is the
  \<open>success\<close> field. The four deletes are four awaited statements, with no
  transaction around them.
\<close>

definition deleteAsset :: "env \<Rightarrow> string \<Rightarrow> bool \<Rightarrow> store \<Rightarrow> bool outcome" where
  "deleteAsset e aid permanent s =
    (if db_fails e 0 then (Inl StoreFailure, s)
     else if filter (\<lambda>a. a_id a = aid) (assetsTable s) = [] then (Inr False, s)
     else if permanent then
       (if db_fails e 1 then (Inl StoreFailure, s)
        else
         (let s1 = s\<lparr>complaintsTable :=
                      delete_where (\<lambda>c. c_asset_id c = aid) (complaintsTable s)\<rparr>
          in if db_fails e 2 then (Inl StoreFailure, s1)
             else
              (let s2 = s1\<lparr>assetHistoryTable :=
                            delete_where (\<lambda>h. h_asset_id h = aid) (assetHistoryTable s1)\<rparr>
               in if db_fails e 3 then (Inl StoreFailure, s2)
                  else
                   (let s3 = s2\<lparr>maintenanceSchedulesTable :=
                                 delete_where (\<lambda>m. m_asset_id m = aid)
                                   (maintenanceSchedulesTable s2)\<rparr>
                    in if db_fails e 4 then (Inl StoreFailure, s3)
                       else (Inr True,
                             s3\<lparr>assetsTable :=
                                  delete_where (\<lambda>a. a_id a = aid) (assetsTable s3)\<rparr>)))))
     else
       (if db_fails e 5 then (Inl StoreFailure, s)
        else (Inr True,
              s\<lparr>assetsTable :=
                  update_where (\<lambda>a. a_id a = aid)
                    (set_asset (no_update\<lparr>upd_is_archived := Some True,
                                  upd_updated_at := Some (clock e 0)\<rparr>))
                    (assetsTable s)\<rparr>)))"

section \<open>createAsset (handlers/create\_asset.ts)\<close>

record create_asset_input =
  ca_name :: string
  ca_description :: "string option"
  ca_category :: asset_category
  ca_condition :: asset_condition
  ca_owner :: "string option"
  ca_photo_url :: "string option"

text \<open>
  The inserted row: the identifier is the first one drawn, the scan code is \<open>QR_\<close>
  followed by it, and the store fills both timestamps (clock read 0).
\<close>

definition new_asset :: "env \<Rightarrow> create_asset_input \<Rightarrow> asset" where
  "new_asset e i =
     \<lparr>a_id = new_id e 0, a_name = ca_name i, a_description = ca_description i,
      a_category = ca_category i, a_condition = ca_condition i, a_owner = ca_owner i,
      a_photo_url = ca_photo_url i, a_qr_code = ''QR_'' @ new_id e 0,
      a_is_archived = False, a_created_at = clock e 0, a_updated_at = clock e 0\<rparr>"

definition create_log :: "env \<Rightarrow> string \<Rightarrow> asset \<Rightarrow> user_activity_log" where
  "create_log e owner asset =
     \<lparr>l_id = new_id e 1, l_user_id = owner, l_action = ''CREATE'',
      l_entity_type = ''ASSET'', l_entity_id = Some (a_id asset),
      l_details = Some (''Created asset: '' @ a_name asset @ '' (''
                        @ category_str (a_category asset) @ '')''),
      l_timestamp = clock e 1\<rparr>"

text \<open>
  The body of the inner \<open>try\<close> (lines 34 to 52): store operation 1 looks the owner up
  among the user ids, 2 inserts the activity-log row when the lookup is not empty. The
  lookup does not read the \<open>is_active\<close> column.
\<close>

definition try_log_creation :: "env \<Rightarrow> string \<Rightarrow> asset \<Rightarrow> store \<Rightarrow> error + store" where
  "try_log_creation e owner asset s =
    (if db_fails e 1 then Inl StoreFailure
     else if 0 < length (take 1 (filter (\<lambda>u. u_id u = owner) (usersTable s))) then
       (if db_fails e 2 then Inl StoreFailure
        else Inr (s\<lparr>userActivityLogsTable :=
                     userActivityLogsTable s @ [create_log e owner asset]\<rparr>))
     else Inr s)"

text \<open>
  Lines 31 to 57: \<open>if (input.owner)\<close> holds for an owner that is neither \<open>null\<close> nor
  the empty string; the \<open>catch\<close> of the inner \<open>try\<close> warns and goes on with the store
  as the asset insert left it.
\<close>

definition log_creation :: "env \<Rightarrow> create_asset_input \<Rightarrow> asset \<Rightarrow> store \<Rightarrow> store" where
  "log_creation e i asset s =
    (case ca_owner i of
       None \<Rightarrow> s
     | Some owner \<Rightarrow>
        if owner = [] then s
        else (case try_log_creation e owner asset s of Inl logError \<Rightarrow> s | Inr s1 \<Rightarrow> s1))"

text \<open>The handler: store operation 0 inserts the asset row.\<close>

definition createAsset :: "env \<Rightarrow> create_asset_input \<Rightarrow> store \<Rightarrow> asset outcome" where
  "createAsset e i s =
    (if db_fails e 0 then (Inl StoreFailure, s)
     else
      (let asset = new_asset e i;
           s1 = s\<lparr>assetsTable := assetsTable s @ [asset]\<rparr>
       in (Inr asset, log_creation e i asset s1)))"

section \<open>getAssets (handlers/get\_assets.ts)\<close>

text \<open>
  Strings are lists of 8-bit code units. \<open>trim\<close> removes the white space of
  \<open>String.prototype.trim\<close> that lies in that range: tab, line feed, vertical tab, form
  feed, carriage return, space and the no-break space.
\<close>

definition js_ws :: "char \<Rightarrow> bool" where
  "js_ws c = (of_char c \<in> {9, 10, 11, 12, 13, 32, 160 :: nat})"

definition trim :: "string \<Rightarrow> string" where
  "trim s = rev (dropWhile js_ws (rev (dropWhile js_ws s)))"

fun category_of_str :: "string \<Rightarrow> asset_category option" where
  "category_of_str s =
    (if s = ''MONITOR'' then Some MONITOR else if s = ''CPU'' then Some CPU
     else if s = ''AC'' then Some AC else if s = ''CHAIR'' then Some CHAIR
     else if s = ''TABLE'' then Some TABLE else if s = ''DISPENSER'' then Some DISPENSER
     else if s = ''CCTV'' then Some CCTV else if s = ''ROUTER'' then Some ROUTER
     else if s = ''LAN_CABLE'' then Some LAN_CABLE else if s = ''OTHER'' then Some OTHER
     else None)"

fun condition_of_str :: "string \<Rightarrow> asset_condition option" where
  "condition_of_str s =
    (if s = ''NEW'' then Some NEW else if s = ''GOOD'' then Some GOOD
     else if s = ''UNDER_REPAIR'' then Some UNDER_REPAIR
     else if s = ''DAMAGED'' then Some DAMAGED else None)"

record asset_filters =
  f_search :: "string option"
  f_category :: "string option"
  f_condition :: "string option"
  f_owner :: "string option"
  f_is_archived :: "bool option"

text \<open>
  Each block of the handler pushes at most one condition. A condition is a predicate
  on rows; \<open>ilike\<close>, the store's case-insensitive pattern match (pattern first), is a
  parameter. A \<open>NULL\<close> description matches no pattern. The category and condition
  columns are enumerations of the store: comparing one with a text that is not one of
  its tags makes the store reject the query, which is the \<open>Inl\<close> of these two blocks.
\<close>

definition search_cond :: "(string \<Rightarrow> string \<Rightarrow> bool) \<Rightarrow> asset_filters \<Rightarrow> (asset \<Rightarrow> bool) list" where
  "search_cond ilike f =
    (case f_search f of
       None \<Rightarrow> []
     | Some q \<Rightarrow>
        if q \<noteq> [] \<and> trim q \<noteq> [] then
          [\<lambda>a. ilike (''%'' @ q @ ''%'') (a_name a)
                \<or> (case a_description a of None \<Rightarrow> False
                    | Some d \<Rightarrow> ilike (''%'' @ q @ ''%'') d)]
        else [])"

definition category_cond :: "asset_filters \<Rightarrow> error + (asset \<Rightarrow> bool) list" where
  "category_cond f =
    (case f_category f of
       None \<Rightarrow> Inr []
     | Some c \<Rightarrow>
        if c = [] then Inr []
        else (case category_of_str c of
                None \<Rightarrow> Inl StoreFailure
              | Some k \<Rightarrow> Inr [\<lambda>a. a_category a = k]))"

definition condition_cond :: "asset_filters \<Rightarrow> error + (asset \<Rightarrow> bool) list" where
  "condition_cond f =
    (case f_condition f of
       None \<Rightarrow> Inr []
     | Some c \<Rightarrow>
        if c = [] then Inr []
        else (case condition_of_str c of
                None \<Rightarrow> Inl StoreFailure
              | Some k \<Rightarrow> Inr [\<lambda>a. a_condition a = k]))"

definition owner_cond :: "asset_filters \<Rightarrow> (asset \<Rightarrow> bool) list" where
  "owner_cond f =
    (case f_owner f of
       None \<Rightarrow> []
     | Some ow \<Rightarrow>
        if ow = [] \<or> ow = ''null'' then [\<lambda>a. a_owner a = None]
        else [\<lambda>a. a_owner a = Some ow])"

definition archived_cond :: "asset_filters \<Rightarrow> (asset \<Rightarrow> bool) list" where
  "archived_cond f =
    (case f_is_archived f of
       None \<Rightarrow> []
     | Some b \<Rightarrow> [\<lambda>a. a_is_archived a = b])"

text \<open>
  The handler: one query (store operation 0), with the conjunction of the conditions
  when there is one. Rows come back in table order.
\<close>

definition getAssets ::
    "(string \<Rightarrow> string \<Rightarrow> bool) \<Rightarrow> env \<Rightarrow> asset_filters option \<Rightarrow> store \<Rightarrow> error + asset list" where
  "getAssets ilike e filters s =
    (case filters of
       None \<Rightarrow> if db_fails e 0 then Inl StoreFailure else Inr (assetsTable s)
     | Some f \<Rightarrow>
        (case category_cond f of
           Inl err \<Rightarrow> Inl StoreFailure
         | Inr cat \<Rightarrow>
            (case condition_cond f of
               Inl err \<Rightarrow> Inl StoreFailure
             | Inr cond \<Rightarrow>
                (let conditions = search_cond ilike f @ cat @ cond @ owner_cond f
                                  @ archived_cond f
                 in if db_fails e 0 then Inl StoreFailure
                    else if 0 < length conditions then
                      Inr (filter (\<lambda>a. list_all (\<lambda>p. p a) conditions) (assetsTable s))
                    else Inr (assetsTable s)))))"

section \<open>getDashboardStats (handlers/get\_dashboard\_stats.ts)\<close>

text \<open>
  The two \<open>Date\<close> methods the handler calls, for a host whose local time is UTC.
  \<open>getDate\<close> is the day of the month of an instant (the days since the epoch are
  turned into a civil date of the Gregorian calendar). \<open>setDate\<close> keeps year, month
  and time of day of the instant and replaces the day of the month, a day outside the
  month running over into the neighbouring months: the result is the instant moved by
  the difference of the two days of the month.
\<close>

definition msPerDay :: int where
  "msPerDay = 86400000"

definition getDate :: "time \<Rightarrow> int" where
  "getDate t =
    (let z = t div msPerDay + 719468;
         doe = z mod 146097;
         yoe = (doe - doe div 1460 + doe div 36524 - doe div 146096) div 365;
         doy = doe - (365 * yoe + yoe div 4 - yoe div 100);
         mp = (5 * doy + 2) div 153
     in doy - (153 * mp + 2) div 5 + 1)"

definition setDate :: "time \<Rightarrow> int \<Rightarrow> time" where
  "setDate t d = t + (d - getDate t) * msPerDay"

text \<open>
  \<open>select({key, count()}).groupBy(key)\<close>: one row per key that occurs, with the
  number of rows that carry it. The \<open>forEach\<close> that follows writes the rows into an
  object, keyed by the tag's text.
\<close>

definition group_count :: "('r \<Rightarrow> 'k) \<Rightarrow> 'r list \<Rightarrow> ('k \<times> nat) list" where
  "group_count key t = map (\<lambda>k. (k, length (filter (\<lambda>r. key r = k) t))) (remdups (map key t))"

definition to_record :: "('k \<Rightarrow> string) \<Rightarrow> ('k \<times> nat) list \<Rightarrow> (string \<rightharpoonup> nat)" where
  "to_record str rows = fold (\<lambda>(k, n) m. m(str k \<mapsto> n)) rows Map.empty"

record dashboard_stats =
  total_assets :: nat
  assets_by_condition :: "string \<rightharpoonup> nat"
  assets_by_category :: "string \<rightharpoonup> nat"
  pending_complaints :: nat
  upcoming_maintenance :: nat
  recent_activities :: nat
  archived_assets :: nat

text \<open>
  The handler reads the clock three times: \<open>now\<close> (read 0), \<open>thirtyDaysFromNow\<close>
  (read 1, then moved to the day of the month of \<open>now\<close> plus 30) and \<open>sevenDaysAgo\<close>
  (read 2, moved to the day of the month of \<open>now\<close> minus 7). It runs seven queries
  (store operations 0 to 6) and writes nothing, so a rejection of any of them is the
  handler's only error.
\<close>

definition thirtyDaysFromNow :: "env \<Rightarrow> time" where
  "thirtyDaysFromNow e = setDate (clock e 1) (getDate (clock e 0) + 30)"

definition sevenDaysAgo :: "env \<Rightarrow> time" where
  "sevenDaysAgo e = setDate (clock e 2) (getDate (clock e 0) - 7)"

definition getDashboardStats :: "env \<Rightarrow> store \<Rightarrow> error + dashboard_stats" where
  "getDashboardStats e s =
    (if db_fails e 0 \<or> db_fails e 1 \<or> db_fails e 2 \<or> db_fails e 3 \<or> db_fails e 4
        \<or> db_fails e 5 \<or> db_fails e 6 then Inl StoreFailure
     else
      (let now = clock e 0;
           conditionStatsResult =
             group_count a_condition (filter (\<lambda>a. a_is_archived a = False) (assetsTable s));
           categoryStatsResult =
             group_count a_category (filter (\<lambda>a. a_is_archived a = False) (assetsTable s))
       in Inr \<lparr>
            total_assets = length (assetsTable s),
            assets_by_condition = to_record condition_str conditionStatsResult,
            assets_by_category = to_record category_str categoryStatsResult,
            pending_complaints =
              length (filter (\<lambda>c. c_status c \<noteq> CS_RESOLVED) (complaintsTable s)),
            upcoming_maintenance =
              length (filter (\<lambda>m. m_is_completed m = False \<and> now \<le> m_scheduled_date m
                                   \<and> m_scheduled_date m \<le> thirtyDaysFromNow e)
                        (maintenanceSchedulesTable s)),
            recent_activities =
              length (filter (\<lambda>l. sevenDaysAgo e \<le> l_timestamp l) (userActivityLogsTable s)),
            archived_assets = length (filter (\<lambda>a. a_is_archived a = True) (assetsTable s))\<rparr>))"

section \<open>sendNotificationEmail (handlers/send\_notification\_email.ts)\<close>

record email_notification =
  n_to :: "string list"
  n_subject :: string
  n_body :: string
  n_type :: string

record email_result =
  r_success :: bool
  r_messageId :: "string option"
  r_error :: "string option"

text \<open>
  The rendered document is a fixed template; it is represented by the values the
  template interpolates: the title and heading (the subject), the alert class, the icon
  (its code points) and the body with every line feed replaced by \<open><br>\<close>.
\<close>

record html_doc =
  d_title :: string
  d_alertClass :: string
  d_icon :: "nat list"
  d_body :: string

record email_template =
  t_subject :: string
  t_html :: html_doc

definition getEmailTemplate :: "email_notification \<Rightarrow> email_template" where
  "getEmailTemplate n =
    (let alertClass =
           (if n_type n = ''complaint'' then ''alert alert-complaint''
            else if n_type n = ''maintenance'' then ''alert alert-maintenance''
            else if n_type n = ''status_change'' then ''alert alert-status''
            else ''alert'');
         icon =
           (if n_type n = ''complaint'' then [0x26A0, 0xFE0F]
            else if n_type n = ''maintenance'' then [0x1F527]
            else if n_type n = ''status_change'' then [0x1F4CA]
            else [0x1F4E7])
     in \<lparr>t_subject = ''[Asset Management] '' @ n_subject n,
         t_html = \<lparr>d_title = n_subject n, d_alertClass = alertClass, d_icon = icon,
                    d_body = concat (map (\<lambda>c. if c = CHR 0x0A then ''<br>'' else [c])
                                      (n_body n))\<rparr>\<rparr>)"

text \<open>
  The mail collaborator of the handler. It refuses an address that is empty or has no
  \<open>@\<close> (the exception is caught inside and becomes a failure result); otherwise it
  reports success with a message id made of \<open>Date.now()\<close> and a random suffix, both
  given by the environment as text.
\<close>

record mail_env =
  me_now :: string
  me_random :: string

definition mockSendEmail :: "mail_env \<Rightarrow> string list \<Rightarrow> string \<Rightarrow> html_doc \<Rightarrow> email_result" where
  "mockSendEmail me to subject html =
    (case find (\<lambda>email. email = [] \<or> CHR ''@'' \<notin> set email) to of
       Some email \<Rightarrow>
         \<lparr>r_success = False, r_messageId = None,
          r_error = Some (''Invalid email address: '' @ email)\<rparr>
     | None \<Rightarrow>
         \<lparr>r_success = True,
          r_messageId = Some (''<'' @ me_now me @ ''-'' @ me_random me
                              @ ''@asset-management.com>''),
          r_error = None\<rparr>)"

text \<open>A call of the mail collaborator, as the handler makes it.\<close>

record dispatch =
  o_to :: "string list"
  o_subject :: string
  o_html :: html_doc

definition failure :: "string \<Rightarrow> email_result" where
  "failure msg = \<lparr>r_success = False, r_messageId = None, r_error = Some msg\<rparr>"

text \<open>
  The handler returns its result together with the calls it made to the mail
  collaborator. \<open>!notification.subject\<close> holds for the empty string.
\<close>

definition sendNotificationEmail ::
    "mail_env \<Rightarrow> email_notification \<Rightarrow> email_result \<times> dispatch list" where
  "sendNotificationEmail me notification =
    (if length (n_to notification) = 0 then (failure ''No recipients specified'', [])
     else if n_subject notification = [] \<or> trim (n_subject notification) = [] then
       (failure ''Subject cannot be empty'', [])
     else if n_body notification = [] \<or> trim (n_body notification) = [] then
       (failure ''Email body cannot be empty'', [])
     else if n_type notification \<notin> set [''complaint'', ''maintenance'', ''status_change''] then
       (failure ''Invalid notification type'', [])
     else
      (let emailTemplate = getEmailTemplate notification
       in (mockSendEmail me (n_to notification) (t_subject emailTemplate)
             (t_html emailTemplate),
           [\<lparr>o_to = n_to notification, o_subject = t_subject emailTemplate,
             o_html = t_html emailTemplate\<rparr>])))"

section \<open>Notions used in the statements\<close>

text \<open>An input field differs when it is provided and is not the stored value.\<close>

definition differs :: "'a option \<Rightarrow> 'a \<Rightarrow> bool" where
  "differs i cur = (i \<noteq> None \<and> i \<noteq> Some cur)"

text \<open>What a ledger row records of a change: field, old value, new value, actor.\<close>

definition ledger_view ::
    "asset_history \<Rightarrow> string \<times> string option \<times> string option \<times> string option" where
  "ledger_view h = (h_field_name h, h_old_value h, h_new_value h, h_changed_by h)"

text \<open>Every store operation of the call succeeds.\<close>

definition db_ok :: "env \<Rightarrow> bool" where
  "db_ok e = (\<forall>k. \<not> db_fails e k)"

text \<open>A string is blank when it is empty or holds white space only.\<close>

definition blank :: "string \<Rightarrow> bool" where
  "blank s = (\<forall>c \<in> set s. js_ws c)"

section \<open>Example environments, stores and inputs\<close>

text \<open>An environment in which every store operation succeeds.\<close>

definition env_ok :: env where
  "env_ok = \<lparr>clock = (\<lambda>k. 5000 + int k),
     new_id = (\<lambda>k. if k = 0 then ''g0'' else ''g1''), db_fails = (\<lambda>k. False)\<rparr>"

definition empty_store :: store where
  "empty_store = \<lparr>assetsTable = [], usersTable = [], complaintsTable = [],
     assetHistoryTable = [], maintenanceSchedulesTable = [], userActivityLogsTable = []\<rparr>"

text \<open>The asset of the specification's example: a new monitor without owner.\<close>

definition asset_A :: asset where
  "asset_A = \<lparr>a_id = ''A'', a_name = ''Screen'', a_description = None, a_category = MONITOR,
     a_condition = NEW, a_owner = None, a_photo_url = None, a_qr_code = ''QR_A'',
     a_is_archived = False, a_created_at = 1000, a_updated_at = 1000\<rparr>"

definition store_A :: store where
  "store_A = empty_store\<lparr>assetsTable := [asset_A]\<rparr>"

definition input_A_change :: update_asset_input where
  "input_A_change = \<lparr>ua_id = ''A'', ua_name = None, ua_description = None,
     ua_category = None, ua_condition = Some GOOD, ua_owner = Some (Some ''u1''),
     ua_photo_url = None\<rparr>"

definition input_A_same :: update_asset_input where
  "input_A_same = \<lparr>ua_id = ''A'', ua_name = Some ''Screen'', ua_description = Some None,
     ua_category = None, ua_condition = Some NEW, ua_owner = None, ua_photo_url = None\<rparr>"

text \<open>
  A router under repair with an urgent and a resolved complaint, next to the monitor A
  (condition \<open>NEW\<close>) with one open complaint.
\<close>

definition asset_R :: asset where
  "asset_R = \<lparr>a_id = ''R'', a_name = ''Router'', a_description = None, a_category = ROUTER,
     a_condition = UNDER_REPAIR, a_owner = None, a_photo_url = None, a_qr_code = ''QR_R'',
     a_is_archived = False, a_created_at = 1000, a_updated_at = 1000\<rparr>"

definition complaint_1 :: complaint where
  "complaint_1 = \<lparr>c_id = ''c1'', c_asset_id = ''R'', c_complainant_name = ''Ann'',
     c_status = CS_URGENT, c_description = ''no link'', c_created_at = 2000,
     c_updated_at = 2000\<rparr>"

definition complaint_2 :: complaint where
  "complaint_2 = \<lparr>c_id = ''c2'', c_asset_id = ''R'', c_complainant_name = ''Bob'',
     c_status = CS_RESOLVED, c_description = ''slow'', c_created_at = 2100,
     c_updated_at = 2200\<rparr>"

definition complaint_3 :: complaint where
  "complaint_3 = \<lparr>c_id = ''c3'', c_asset_id = ''A'', c_complainant_name = ''Cid'',
     c_status = CS_NEEDS_REPAIR, c_description = ''flicker'', c_created_at = 2300,
     c_updated_at = 2300\<rparr>"

definition store_R :: store where
  "store_R = empty_store\<lparr>assetsTable := [asset_A, asset_R],
     complaintsTable := [complaint_1, complaint_2, complaint_3]\<rparr>"

definition input_resolve_1 :: update_complaint_input where
  "input_resolve_1 = \<lparr>uc_id = ''c1'', uc_status = Some CS_RESOLVED, uc_description = None\<rparr>"

definition input_resolve_3 :: update_complaint_input where
  "input_resolve_3 = \<lparr>uc_id = ''c3'', uc_status = Some CS_RESOLVED, uc_description = None\<rparr>"

definition input_touch_1 :: update_complaint_input where
  "input_touch_1 = \<lparr>uc_id = ''c1'', uc_status = Some CS_URGENT, uc_description = None\<rparr>"

text \<open>
  An archived desk Z, in a store whose only user is an ordinary employee, and in a store
  whose only user is an employee registered under the email \<open>system@internal.com\<close>.
\<close>

definition asset_Z :: asset where
  "asset_Z = \<lparr>a_id = ''Z'', a_name = ''Desk'', a_description = None, a_category = TABLE,
     a_condition = GOOD, a_owner = None, a_photo_url = None, a_qr_code = ''QR_Z'',
     a_is_archived = True, a_created_at = 1000, a_updated_at = 1500\<rparr>"

definition user_7 :: user where
  "user_7 = \<lparr>u_id = ''u7'', u_email = ''system@internal.com'', u_password_hash = ''5e88'',
     u_role = EMPLOYEE, u_full_name = ''Sys Admin'', u_is_active = True,
     u_created_at = 900, u_updated_at = 900\<rparr>"

definition user_1 :: user where
  "user_1 = \<lparr>u_id = ''u1'', u_email = ''ann@example.com'', u_password_hash = ''9f86'',
     u_role = EMPLOYEE, u_full_name = ''Ann'', u_is_active = True,
     u_created_at = 800, u_updated_at = 800\<rparr>"

definition store_Z :: store where
  "store_Z = empty_store\<lparr>assetsTable := [asset_Z], usersTable := [user_1]\<rparr>"

definition store_Z_taken :: store where
  "store_Z_taken = empty_store\<lparr>assetsTable := [asset_Z], usersTable := [user_7]\<rparr>"

text \<open>
  The store of the router R with a ledger row and a maintenance schedule added, and
  environments in which exactly one store operation rejects.
\<close>

definition history_R :: asset_history where
  "history_R = \<lparr>h_id = ''h9'', h_asset_id = ''R'', h_field_name = ''condition'',
     h_old_value = Some ''GOOD'', h_new_value = Some ''UNDER_REPAIR'', h_changed_by = None,
     h_changed_at = 1900\<rparr>"

definition maintenance_R :: maintenance_schedule where
  "maintenance_R = \<lparr>m_id = ''m1'', m_asset_id = ''R'', m_title = ''Firmware'',
     m_description = None, m_scheduled_date = 9000, m_is_completed = False,
     m_created_by = ''u1'', m_created_at = 1800, m_updated_at = 1800\<rparr>"

definition store_D :: store where
  "store_D = store_R\<lparr>usersTable := [user_1], assetHistoryTable := [history_R],
     maintenanceSchedulesTable := [maintenance_R]\<rparr>"

definition env_fail :: "nat \<Rightarrow> env" where
  "env_fail n = env_ok\<lparr>db_fails := (\<lambda>k. k = n)\<rparr>"

definition input_create :: create_asset_input where
  "input_create = \<lparr>ca_name = ''Lamp'', ca_description = None, ca_category = OTHER,
     ca_condition = NEW, ca_owner = Some ''u1'', ca_photo_url = None\<rparr>"

text \<open>A filter object with the owner key only, and two more assets with an owner.\<close>

definition owner_only :: "string option \<Rightarrow> asset_filters" where
  "owner_only ow = \<lparr>f_search = None, f_category = None, f_condition = None, f_owner = ow,
     f_is_archived = None\<rparr>"

definition asset_B :: asset where
  "asset_B = \<lparr>a_id = ''B'', a_name = ''Chair'', a_description = Some ''blue'',
     a_category = CHAIR, a_condition = GOOD, a_owner = Some ''u1'', a_photo_url = None,
     a_qr_code = ''QR_B'', a_is_archived = False, a_created_at = 1000, a_updated_at = 1000\<rparr>"

definition asset_N :: asset where
  "asset_N = \<lparr>a_id = ''N'', a_name = ''Cable'', a_description = None,
     a_category = LAN_CABLE, a_condition = GOOD, a_owner = Some ''null'', a_photo_url = None,
     a_qr_code = ''QR_N'', a_is_archived = True, a_created_at = 1000, a_updated_at = 1000\<rparr>"

definition store_L :: store where
  "store_L = empty_store\<lparr>assetsTable := [asset_A, asset_B, asset_N, asset_Z]\<rparr>"

text \<open>Notifications: one well-formed, the others each with one defect.\<close>

definition mail_env_0 :: mail_env where
  "mail_env_0 = \<lparr>me_now = ''1700000000000'', me_random = ''k3x9q2a1b''\<rparr>"

definition note_ok :: email_notification where
  "note_ok = \<lparr>n_to = [''ann@example.com''], n_subject = ''Repair'',
     n_body = ''Router R is fixed'', n_type = ''status_change''\<rparr>"

definition note_no_recipient :: email_notification where
  "note_no_recipient = note_ok\<lparr>n_to := []\<rparr>"

definition note_blank_subject :: email_notification where
  "note_blank_subject = note_ok\<lparr>n_subject := [CHR 0x20, CHR 0x09]\<rparr>"

definition note_blank_body :: email_notification where
  "note_blank_body = note_ok\<lparr>n_body := []\<rparr>"

definition note_bad_type :: email_notification where
  "note_bad_type = note_ok\<lparr>n_type := ''alert''\<rparr>"

text \<open>
  A run of the dashboard whose clock reads straddle the end of January 2024: \<open>now\<close> is
  2024-01-31 23:59:59.999 UTC, the two later reads are 2024-02-01 00:00:00.000 UTC. The
  store holds one open maintenance schedule, for 2024-03-15 00:00 UTC.
\<close>

definition env_midnight :: env where
  "env_midnight = \<lparr>clock = (\<lambda>k. if k = 0 then 1706745599999 else 1706745600000),
     new_id = (\<lambda>k. ''g''), db_fails = (\<lambda>k. False)\<rparr>"

definition maintenance_M :: maintenance_schedule where
  "maintenance_M = \<lparr>m_id = ''m2'', m_asset_id = ''A'', m_title = ''Clean'',
     m_description = None, m_scheduled_date = 1710460800000, m_is_completed = False,
     m_created_by = ''u1'', m_created_at = 1000, m_updated_at = 1000\<rparr>"

definition store_M :: store where
  "store_M = empty_store\<lparr>assetsTable := [asset_A], usersTable := [user_1],
     maintenanceSchedulesTable := [maintenance_M]\<rparr>"

section \<open>Facts about the store operations\<close>

lemma select_first_SomeD:
  "select_first p t = Some r \<Longrightarrow> r \<in> set t \<and> p r"
proof -
  assume "select_first p t = Some r"
  then obtain rest where "filter p t = r # rest"
    by (auto simp: select_first_def split: list.splits)
  then have "r \<in> set (filter p t)" by simp
  then show ?thesis by simp
qed

lemma select_first_None: "(select_first p t = None) = (filter p t = [])"
  unfolding select_first_def by (cases "filter p t") auto

lemma returning_first:
  "select_first p t = Some r \<Longrightarrow> (case returning p f t of [] \<Rightarrow> d | x # _ \<Rightarrow> x) = f r"
  unfolding select_first_def returning_def by (cases "filter p t") auto

text \<open>Under the primary key, the selected row is the only row with its key.\<close>

lemma unique_row:
  assumes "distinct (map key t)" and "select_first (\<lambda>r. key r = k) t = Some r"
    and "x \<in> set t" and "key x = k"
  shows "x = r"
proof -
  from assms(2) have "r \<in> set t" "key r = k" by (auto dest: select_first_SomeD)
  with assms(1,3,4) show ?thesis by (metis distinct_map inj_onD)
qed

lemma update_where_unique:
  assumes "distinct (map key t)" and "select_first (\<lambda>r. key r = k) t = Some r"
  shows "update_where (\<lambda>r. key r = k) f t = map (\<lambda>x. if key x = k then f r else x) t"
  unfolding update_where_def using unique_row [OF assms] by (intro map_cong) auto

lemma map_enumerate_snd: "map (\<lambda>(k, x). F x) (enumerate n xs) = map F xs"
  by (induction xs arbitrary: n) auto

lemmas example_defs = env_ok_def empty_store_def asset_A_def store_A_def
  input_A_change_def input_A_same_def

section \<open>updateAsset: staged changes, the write and the ledger\<close>

lemma staged_same: "i = None \<or> i = Some cur \<Longrightarrow> staged i cur = None"
  by (auto simp: staged_def)

lemma change_of_differs:
  "change_of f str i cur =
     (if differs i cur then [\<lparr>field_name = f, old_value = str cur,
         new_value = (case i of None \<Rightarrow> None | Some v \<Rightarrow> str v)\<rparr>] else [])"
  by (auto simp: change_of_def staged_def differs_def split: option.splits)

lemma keys_count_changes:
  "(keys_count (updateData_of now i a) = 1) = (changes_of i a = [])"
  by (simp add: keys_count_def updateData_of_def changes_of_def change_of_def opt_count_def
      split: option.splits)

lemma set_asset_updateData:
  "set_asset (updateData_of now i a) a = a\<lparr>
      a_name := (case ua_name i of None \<Rightarrow> a_name a | Some v \<Rightarrow> v),
      a_description := (case ua_description i of None \<Rightarrow> a_description a | Some v \<Rightarrow> v),
      a_category := (case ua_category i of None \<Rightarrow> a_category a | Some v \<Rightarrow> v),
      a_condition := (case ua_condition i of None \<Rightarrow> a_condition a | Some v \<Rightarrow> v),
      a_owner := (case ua_owner i of None \<Rightarrow> a_owner a | Some v \<Rightarrow> v),
      a_photo_url := (case ua_photo_url i of None \<Rightarrow> a_photo_url a | Some v \<Rightarrow> v),
      a_updated_at := now\<rparr>"
  by (simp add: set_asset_def updateData_of_def staged_def split: option.splits)

lemma historyEntries_view:
  "map ledger_view (historyEntries_of e aid chs)
     = map (\<lambda>ch. (field_name ch, old_value ch, new_value ch, None)) chs"
  unfolding historyEntries_of_def ledger_view_def
  by (simp add: case_prod_unfold o_def)
     (simp add: map_enumerate_snd
        [where F = "\<lambda>ch. (field_name ch, old_value ch, new_value ch, None)",
         unfolded case_prod_unfold])

text \<open>
  C3. For an existing asset, an update whose every provided field equals the stored
  value writes nothing: the store is left as it was (no row write, \<open>updated_at\<close>
  included, and no ledger row) and the stored row is returned unmodified. The one store
  operation the call makes, the read of the row, is taken to succeed.
\<close>

theorem updateAsset_noop:
  assumes "\<not> db_fails e 0"
    and "select_first (\<lambda>r. a_id r = ua_id i) (assetsTable s) = Some a"
    and "ua_name i = None \<or> ua_name i = Some (a_name a)"
    and "ua_description i = None \<or> ua_description i = Some (a_description a)"
    and "ua_category i = None \<or> ua_category i = Some (a_category a)"
    and "ua_condition i = None \<or> ua_condition i = Some (a_condition a)"
    and "ua_owner i = None \<or> ua_owner i = Some (a_owner a)"
    and "ua_photo_url i = None \<or> ua_photo_url i = Some (a_photo_url a)"
  shows "updateAsset e i s = (Inr a, s)"
proof -
  have "keys_count (updateData_of (clock e 0) i a) = 1"
    using assms(3-8) by (simp add: keys_count_def updateData_of_def staged_same opt_count_def)
  then show ?thesis
    using assms(1,2) by (simp add: updateAsset_def Let_def)
qed

theorem updateAsset_noop_witness:
  "updateAsset env_ok input_A_same store_A = (Inr asset_A, store_A)"
  using updateAsset_noop [where e = env_ok and i = input_A_same and s = store_A
      and a = asset_A]
  by (simp add: example_defs select_first_def)

text \<open>
  C2, as stated, at an input that changes nothing: the row comes back with the stored
  \<open>updated_at\<close>, not with the clock read of the call, and the store is not written.
\<close>

theorem updateAsset_refresh_counterexample:
  "updateAsset env_ok input_A_same store_A = (Inr asset_A, store_A)
   \<and> a_updated_at asset_A \<noteq> clock env_ok 0"
  by (simp add: updateAsset_def example_defs select_first_def Let_def updateData_of_def
      staged_def keys_count_def opt_count_def)

text \<open>
  C2, amended. For an existing asset and an update in which at least one provided field
  differs from the stored value, with the three store operations succeeding: the row is
  rewritten once, to the stored row with every provided field set to its input value
  (fields that are absent or equal keep the stored value, a \<open>null\<close> is applied like
  any value) and \<open>updated_at\<close> set to the clock read of the call; the ledger grows by
  exactly one row per differing field, in the order name, description, category,
  condition, owner, photo_url, each for this asset, carrying the old and the new value
  and no actor; no other table changes.
\<close>

theorem updateAsset_applies_changes:
  assumes ok: "\<not> db_fails e 0" "\<not> db_fails e 1" "\<not> db_fails e 2"
    and pk: "distinct (map a_id (assetsTable s))"
    and cur: "select_first (\<lambda>r. a_id r = ua_id i) (assetsTable s) = Some a"
    and diff: "differs (ua_name i) (a_name a) \<or> differs (ua_description i) (a_description a)
       \<or> differs (ua_category i) (a_category a) \<or> differs (ua_condition i) (a_condition a)
       \<or> differs (ua_owner i) (a_owner a) \<or> differs (ua_photo_url i) (a_photo_url a)"
  shows "\<exists>a' rows. updateAsset e i s =
           (Inr a', s\<lparr>assetsTable := map (\<lambda>r. if a_id r = ua_id i then a' else r) (assetsTable s),
                      assetHistoryTable := assetHistoryTable s @ rows\<rparr>)
     \<and> a' = a\<lparr>
          a_name := (case ua_name i of None \<Rightarrow> a_name a | Some v \<Rightarrow> v),
          a_description := (case ua_description i of None \<Rightarrow> a_description a | Some v \<Rightarrow> v),
          a_category := (case ua_category i of None \<Rightarrow> a_category a | Some v \<Rightarrow> v),
          a_condition := (case ua_condition i of None \<Rightarrow> a_condition a | Some v \<Rightarrow> v),
          a_owner := (case ua_owner i of None \<Rightarrow> a_owner a | Some v \<Rightarrow> v),
          a_photo_url := (case ua_photo_url i of None \<Rightarrow> a_photo_url a | Some v \<Rightarrow> v),
          a_updated_at := clock e 0\<rparr>
     \<and> (\<forall>h \<in> set rows. h_asset_id h = ua_id i)
     \<and> map ledger_view rows =
          (if differs (ua_name i) (a_name a)
           then [(''name'', Some (a_name a), ua_name i, None)] else [])
        @ (if differs (ua_description i) (a_description a)
           then [(''description'', a_description a, Option.bind (ua_description i) id, None)]
           else [])
        @ (if differs (ua_category i) (a_category a)
           then [(''category'', Some (category_str (a_category a)),
                  map_option category_str (ua_category i), None)] else [])
        @ (if differs (ua_condition i) (a_condition a)
           then [(''condition'', Some (condition_str (a_condition a)),
                  map_option condition_str (ua_condition i), None)] else [])
        @ (if differs (ua_owner i) (a_owner a)
           then [(''owner'', a_owner a, Option.bind (ua_owner i) id, None)] else [])
        @ (if differs (ua_photo_url i) (a_photo_url a)
           then [(''photo_url'', a_photo_url a, Option.bind (ua_photo_url i) id, None)]
           else [])"
proof -
  let ?d = "updateData_of (clock e 0) i a"
  let ?rows = "historyEntries_of e (ua_id i) (changes_of i a)"
  have ne: "changes_of i a \<noteq> []"
    using diff by (auto simp: changes_of_def change_of_differs)
  then have k: "keys_count ?d \<noteq> 1"
    using keys_count_changes [of "clock e 0" i a] by simp
  have run: "updateAsset e i s =
      (Inr (set_asset ?d a),
       s\<lparr>assetsTable := map (\<lambda>r. if a_id r = ua_id i then set_asset ?d a else r) (assetsTable s),
         assetHistoryTable := assetHistoryTable s @ ?rows\<rparr>)"
    using ok cur k ne
    by (simp add: updateAsset_def Let_def returning_first update_where_unique [OF pk cur])
  have asset: "\<forall>h \<in> set ?rows. h_asset_id h = ua_id i"
    by (auto simp: historyEntries_of_def)
  have view: "map ledger_view ?rows =
          (if differs (ua_name i) (a_name a)
           then [(''name'', Some (a_name a), ua_name i, None)] else [])
        @ (if differs (ua_description i) (a_description a)
           then [(''description'', a_description a, Option.bind (ua_description i) id, None)]
           else [])
        @ (if differs (ua_category i) (a_category a)
           then [(''category'', Some (category_str (a_category a)),
                  map_option category_str (ua_category i), None)] else [])
        @ (if differs (ua_condition i) (a_condition a)
           then [(''condition'', Some (condition_str (a_condition a)),
                  map_option condition_str (ua_condition i), None)] else [])
        @ (if differs (ua_owner i) (a_owner a)
           then [(''owner'', a_owner a, Option.bind (ua_owner i) id, None)] else [])
        @ (if differs (ua_photo_url i) (a_photo_url a)
           then [(''photo_url'', a_photo_url a, Option.bind (ua_photo_url i) id, None)]
           else [])"
    unfolding historyEntries_view changes_of_def change_of_differs
    by (simp add: differs_def split: option.splits)
  show ?thesis
    using run asset view unfolding set_asset_updateData by blast
qed

text \<open>
  The example of the specification: updating the condition of asset A to \<open>GOOD\<close> and
  its owner to \<open>u1\<close> leaves exactly two ledger rows, condition and owner.
\<close>

theorem updateAsset_applies_changes_witness:
  "\<exists>a' rows. updateAsset env_ok input_A_change store_A =
      (Inr a', store_A\<lparr>assetsTable := [a'], assetHistoryTable := rows\<rparr>)
    \<and> a' = asset_A\<lparr>a_condition := GOOD, a_owner := Some ''u1'', a_updated_at := 5000\<rparr>
    \<and> (\<forall>h \<in> set rows. h_asset_id h = ''A'')
    \<and> map ledger_view rows = [(''condition'', Some ''NEW'', Some ''GOOD'', None),
                               (''owner'', None, Some ''u1'', None)]"
  using updateAsset_applies_changes [where e = env_ok and i = input_A_change
      and s = store_A and a = asset_A]
  by (simp add: example_defs select_first_def differs_def)

section \<open>updateComplaint: the write, the ledger and the auto-heal\<close>

lemma db_okD: "db_ok e \<Longrightarrow> db_fails e k = False"
  by (simp add: db_ok_def)

lemma others_after_update:
  "list_ex (\<lambda>r. c_id r \<noteq> cid \<and> c_status r \<noteq> CS_RESOLVED)
     (filter (\<lambda>r. c_asset_id r = aid)
        (update_where (\<lambda>r. c_id r = cid) (set_complaint now i) t))
   = (\<exists>r \<in> set t. c_asset_id r = aid \<and> c_id r \<noteq> cid \<and> c_status r \<noteq> CS_RESOLVED)"
  by (auto simp: list_ex_iff update_where_def set_complaint_def)

lemma select_first_filter:
  "select_first p t = Some r \<Longrightarrow> \<exists>rest. filter p t = r # rest"
  by (auto simp: select_first_def split: list.splits)

lemma heal_asset_heals:
  assumes ok: "db_ok e"
    and pka: "distinct (map a_id (assetsTable s))"
    and ast: "select_first (\<lambda>r. a_id r = c_asset_id c) (assetsTable s) = Some a"
    and oth: "\<not> list_ex (\<lambda>r. c_id r \<noteq> cid \<and> c_status r \<noteq> CS_RESOLVED)
                (filter (\<lambda>r. c_asset_id r = c_asset_id c) (complaintsTable s))"
    and cond: "a_condition a = UNDER_REPAIR"
  shows "heal_asset e cid c s =
     (Inr (), s\<lparr>assetsTable := map (\<lambda>r. if a_id r = c_asset_id c
                     then a\<lparr>a_condition := GOOD, a_updated_at := clock e 2\<rparr> else r) (assetsTable s),
                assetHistoryTable := assetHistoryTable s @ [condition_row e c]\<rparr>)"
proof -
  from ast obtain rest where f: "filter (\<lambda>r. a_id r = c_asset_id c) (assetsTable s) = a # rest"
    by (auto dest: select_first_filter)
  have set: "set_asset (no_update\<lparr>upd_condition := Some GOOD, upd_updated_at := Some (clock e 2)\<rparr>) a
      = a\<lparr>a_condition := GOOD, a_updated_at := clock e 2\<rparr>"
    by (simp add: set_asset_def no_update_def)
  show ?thesis
    using oth cond
    by (simp add: heal_asset_def Let_def db_okD [OF ok] f update_where_unique [OF pka ast] set)
qed

lemma heal_asset_skips:
  assumes ok: "db_ok e"
    and ast: "select_first (\<lambda>r. a_id r = c_asset_id c) (assetsTable s) = Some a"
    and cond: "a_condition a \<noteq> UNDER_REPAIR"
  shows "heal_asset e cid c s = (Inr (), s)"
proof -
  from ast obtain rest where f: "filter (\<lambda>r. a_id r = c_asset_id c) (assetsTable s) = a # rest"
    by (auto dest: select_first_filter)
  show ?thesis
    using cond by (simp add: heal_asset_def Let_def db_okD [OF ok] f)
qed

lemma set_complaint_unique:
  assumes pk: "distinct (map c_id (complaintsTable s))"
    and cur: "select_first (\<lambda>r. c_id r = uc_id i) (complaintsTable s) = Some c"
  shows "update_where (\<lambda>r. c_id r = uc_id i) (set_complaint now i) (complaintsTable s)
     = map (\<lambda>r. if c_id r = uc_id i then set_complaint now i c else r) (complaintsTable s)"
  by (rule update_where_unique [OF pk cur])

lemmas complaint_defs = asset_R_def complaint_1_def complaint_2_def complaint_3_def
  store_R_def input_resolve_1_def input_resolve_3_def input_touch_1_def

text \<open>
  C1. Let a complaint update carry the status \<open>RESOLVED\<close>, different from the stored
  status, with every store operation succeeding. If every other complaint of the same
  asset is \<open>RESOLVED\<close> and the asset's condition is \<open>UNDER_REPAIR\<close>, the asset's
  condition becomes \<open>GOOD\<close> and the ledger grows by exactly two rows, one for
  \<open>complaint_status\<close> and one for \<open>condition\<close>. If the asset's condition is not
  \<open>UNDER_REPAIR\<close>, the ledger grows by the \<open>complaint_status\<close> row only and the
  assets table is unchanged.
\<close>

theorem updateComplaint_resolve:
  assumes ok: "db_ok e"
    and pkc: "distinct (map c_id (complaintsTable s))"
    and pka: "distinct (map a_id (assetsTable s))"
    and cur: "select_first (\<lambda>r. c_id r = uc_id i) (complaintsTable s) = Some c"
    and new: "uc_status i = Some CS_RESOLVED" "c_status c \<noteq> CS_RESOLVED"
    and ast: "select_first (\<lambda>r. a_id r = c_asset_id c) (assetsTable s) = Some a"
  shows "(let c' = c\<lparr>c_status := CS_RESOLVED,
                     c_description := (case uc_description i of None \<Rightarrow> c_description c
                                       | Some d \<Rightarrow> d),
                     c_updated_at := clock e 0\<rparr>;
              h1 = status_row e c CS_RESOLVED;
              h2 = condition_row e c
          in ledger_view h1 = (''complaint_status'', Some (status_str (c_status c)),
                               Some ''RESOLVED'', None)
           \<and> h_asset_id h1 = c_asset_id c
           \<and> ledger_view h2 = (''condition'', Some ''UNDER_REPAIR'', Some ''GOOD'', None)
           \<and> h_asset_id h2 = c_asset_id c
           \<and> ((\<forall>r \<in> set (complaintsTable s).
                   c_asset_id r = c_asset_id c \<and> c_id r \<noteq> uc_id i \<longrightarrow> c_status r = CS_RESOLVED)
                \<and> a_condition a = UNDER_REPAIR \<longrightarrow>
                updateComplaint e i s =
                  (Inr c',
                   s\<lparr>complaintsTable :=
                       map (\<lambda>r. if c_id r = uc_id i then c' else r) (complaintsTable s),
                     assetsTable :=
                       map (\<lambda>r. if a_id r = c_asset_id c
                                 then a\<lparr>a_condition := GOOD, a_updated_at := clock e 2\<rparr>
                                 else r) (assetsTable s),
                     assetHistoryTable := assetHistoryTable s @ [h1, h2]\<rparr>))
           \<and> (a_condition a \<noteq> UNDER_REPAIR \<longrightarrow>
                updateComplaint e i s =
                  (Inr c',
                   s\<lparr>complaintsTable :=
                       map (\<lambda>r. if c_id r = uc_id i then c' else r) (complaintsTable s),
                     assetHistoryTable := assetHistoryTable s @ [h1]\<rparr>)))"
proof -
  let ?c' = "set_complaint (clock e 0) i c"
  let ?s1 = "s\<lparr>complaintsTable := map (\<lambda>r. if c_id r = uc_id i then ?c' else r) (complaintsTable s)\<rparr>"
  let ?h1 = "status_row e c CS_RESOLVED"
  let ?s2 = "?s1\<lparr>assetHistoryTable := assetHistoryTable s @ [?h1]\<rparr>"
  have c': "c\<lparr>c_status := CS_RESOLVED,
              c_description := (case uc_description i of None \<Rightarrow> c_description c | Some d \<Rightarrow> d),
              c_updated_at := clock e 0\<rparr> = ?c'"
    using new by (simp add: set_complaint_def)
  have v1: "ledger_view ?h1 = (''complaint_status'', Some (status_str (c_status c)), Some ''RESOLVED'', None)"
       "h_asset_id ?h1 = c_asset_id c"
    by (simp_all add: ledger_view_def status_row_def)
  have v2: "ledger_view (condition_row e c) = (''condition'', Some ''UNDER_REPAIR'', Some ''GOOD'', None)"
       "h_asset_id (condition_row e c) = c_asset_id c"
    by (simp_all add: ledger_view_def condition_row_def)
  have log: "log_status_change e i c ?s1 = heal_asset e (uc_id i) c ?s2"
    using new by (simp add: log_status_change_def Let_def db_okD [OF ok])
  have run: "updateComplaint e i s =
      (case heal_asset e (uc_id i) c ?s2 of (Inl err, s3) \<Rightarrow> (Inl err, s3)
       | (Inr _, s3) \<Rightarrow> (Inr ?c', s3))"
    using cur
    by (simp add: updateComplaint_def Let_def db_okD [OF ok] returning_first
        set_complaint_unique [OF pkc cur] log)
  have heal: "updateComplaint e i s =
           (Inr ?c',
            s\<lparr>complaintsTable := map (\<lambda>r. if c_id r = uc_id i then ?c' else r) (complaintsTable s),
              assetsTable := map (\<lambda>r. if a_id r = c_asset_id c
                  then a\<lparr>a_condition := GOOD, a_updated_at := clock e 2\<rparr> else r) (assetsTable s),
              assetHistoryTable := assetHistoryTable s @ [?h1, condition_row e c]\<rparr>)"
    if oth: "\<forall>r \<in> set (complaintsTable s).
            c_asset_id r = c_asset_id c \<and> c_id r \<noteq> uc_id i \<longrightarrow> c_status r = CS_RESOLVED"
      and cond: "a_condition a = UNDER_REPAIR"
  proof -
    have "\<not> list_ex (\<lambda>r. c_id r \<noteq> uc_id i \<and> c_status r \<noteq> CS_RESOLVED)
                (filter (\<lambda>r. c_asset_id r = c_asset_id c) (complaintsTable ?s2))"
      using oth others_after_update [of "uc_id i" "c_asset_id c" "clock e 0" i "complaintsTable s"]
      by (auto simp: set_complaint_unique [OF pkc cur])
    from heal_asset_heals [OF ok _ _ this cond] pka ast
    have "heal_asset e (uc_id i) c ?s2 =
       (Inr (), ?s2\<lparr>assetsTable := map (\<lambda>r. if a_id r = c_asset_id c
                     then a\<lparr>a_condition := GOOD, a_updated_at := clock e 2\<rparr> else r) (assetsTable ?s2),
                assetHistoryTable := assetHistoryTable ?s2 @ [condition_row e c]\<rparr>)"
      by simp
    then show ?thesis unfolding run by simp
  qed
  have skip: "updateComplaint e i s =
           (Inr ?c',
            s\<lparr>complaintsTable := map (\<lambda>r. if c_id r = uc_id i then ?c' else r) (complaintsTable s),
              assetHistoryTable := assetHistoryTable s @ [?h1]\<rparr>)"
    if cond: "a_condition a \<noteq> UNDER_REPAIR"
  proof -
    from heal_asset_skips [OF ok _ cond, of c ?s2 "uc_id i"] ast
    have "heal_asset e (uc_id i) c ?s2 = (Inr (), ?s2)" by simp
    then show ?thesis unfolding run by simp
  qed
  show ?thesis
    unfolding Let_def c' using v1 v2 heal skip by simp
qed

theorem updateComplaint_resolve_witness:
  "updateComplaint env_ok input_resolve_1 store_R =
     (Inr (complaint_1\<lparr>c_status := CS_RESOLVED, c_updated_at := 5000\<rparr>),
      store_R\<lparr>complaintsTable :=
                 [complaint_1\<lparr>c_status := CS_RESOLVED, c_updated_at := 5000\<rparr>,
                  complaint_2, complaint_3],
              assetsTable := [asset_A, asset_R\<lparr>a_condition := GOOD, a_updated_at := 5002\<rparr>],
              assetHistoryTable := [status_row env_ok complaint_1 CS_RESOLVED,
                                    condition_row env_ok complaint_1]\<rparr>)
   \<and> updateComplaint env_ok input_resolve_3 store_R =
     (Inr (complaint_3\<lparr>c_status := CS_RESOLVED, c_updated_at := 5000\<rparr>),
      store_R\<lparr>complaintsTable :=
                 [complaint_1, complaint_2,
                  complaint_3\<lparr>c_status := CS_RESOLVED, c_updated_at := 5000\<rparr>],
              assetHistoryTable := [status_row env_ok complaint_3 CS_RESOLVED]\<rparr>)"
  using updateComplaint_resolve [where e = env_ok and i = input_resolve_1 and s = store_R
      and c = complaint_1 and a = asset_R]
    updateComplaint_resolve [where e = env_ok and i = input_resolve_3 and s = store_R
      and c = complaint_3 and a = asset_A]
  by (simp add: example_defs complaint_defs select_first_def db_ok_def Let_def)

text \<open>
  C10. For an existing complaint, an update whose status is absent or equal to the
  stored status still rewrites the complaint row with \<open>updated_at\<close> set to the clock
  read of the call, and leaves the ledger (and every other table) as it was; when the
  description is absent or equal as well, the refreshed \<open>updated_at\<close> is the only
  change to the row.
\<close>

theorem updateComplaint_always_writes:
  assumes ok: "\<not> db_fails e 0" "\<not> db_fails e 1"
    and pk: "distinct (map c_id (complaintsTable s))"
    and cur: "select_first (\<lambda>r. c_id r = uc_id i) (complaintsTable s) = Some c"
    and st: "uc_status i = None \<or> uc_status i = Some (c_status c)"
  shows "\<exists>c'. updateComplaint e i s =
           (Inr c', s\<lparr>complaintsTable :=
                        map (\<lambda>r. if c_id r = uc_id i then c' else r) (complaintsTable s)\<rparr>)
    \<and> c' = c\<lparr>c_description := (case uc_description i of None \<Rightarrow> c_description c | Some d \<Rightarrow> d),
              c_updated_at := clock e 0\<rparr>
    \<and> (uc_description i = None \<or> uc_description i = Some (c_description c)
         \<longrightarrow> c' = c\<lparr>c_updated_at := clock e 0\<rparr>)"
proof -
  let ?c' = "set_complaint (clock e 0) i c"
  have c': "?c' = c\<lparr>c_description := (case uc_description i of None \<Rightarrow> c_description c | Some d \<Rightarrow> d),
              c_updated_at := clock e 0\<rparr>"
    using st by (auto simp: set_complaint_def)
  have log: "log_status_change e i c s1 = (Inr (), s1)" for s1
    using st by (auto simp: log_status_change_def)
  have run: "updateComplaint e i s =
      (Inr ?c', s\<lparr>complaintsTable :=
                        map (\<lambda>r. if c_id r = uc_id i then ?c' else r) (complaintsTable s)\<rparr>)"
    using cur ok
    by (simp add: updateComplaint_def Let_def returning_first
        set_complaint_unique [OF pk cur] log)
  show ?thesis
    using run c' by (auto split: option.splits)
qed

theorem updateComplaint_always_writes_witness:
  "updateComplaint env_ok input_touch_1 store_R =
     (Inr (complaint_1\<lparr>c_updated_at := 5000\<rparr>),
      store_R\<lparr>complaintsTable :=
                 [complaint_1\<lparr>c_updated_at := 5000\<rparr>, complaint_2, complaint_3]\<rparr>)"
  using updateComplaint_always_writes [where e = env_ok and i = input_touch_1 and s = store_R
      and c = complaint_1]
  by (simp add: example_defs complaint_defs select_first_def)

section \<open>restoreAsset: guards, the system actor and the activity log\<close>

lemmas restore_defs = asset_Z_def user_7_def user_1_def store_Z_def store_Z_taken_def

lemma restoreAsset_not_found:
  assumes "\<not> db_fails e 0" and "select_first (\<lambda>r. a_id r = aid) (assetsTable s) = None"
  shows "restoreAsset e aid s = (Inl NotFound, s)"
  using assms by (simp add: restoreAsset_def)

lemma restoreAsset_not_archived:
  assumes "\<not> db_fails e 0" and "select_first (\<lambda>r. a_id r = aid) (assetsTable s) = Some a"
    and "\<not> a_is_archived a"
  shows "restoreAsset e aid s = (Inl InvalidState, s)"
  using assms by (simp add: restoreAsset_def)

lemma set_asset_restore:
  "set_asset (no_update\<lparr>upd_is_archived := Some False, upd_updated_at := Some now\<rparr>) a
     = a\<lparr>a_is_archived := False, a_updated_at := now\<rparr>"
  by (simp add: set_asset_def no_update_def)

lemma restoreAsset_run:
  assumes ok: "db_ok e"
    and pk: "distinct (map a_id (assetsTable s))"
    and cur: "select_first (\<lambda>r. a_id r = aid) (assetsTable s) = Some a"
    and arch: "a_is_archived a"
  shows "restoreAsset e aid s =
     log_restoration e aid (a\<lparr>a_is_archived := False, a_updated_at := clock e 0\<rparr>)
       (s\<lparr>assetsTable := map (\<lambda>r. if a_id r = aid
            then a\<lparr>a_is_archived := False, a_updated_at := clock e 0\<rparr> else r) (assetsTable s)\<rparr>)"
  using cur arch
  by (simp add: restoreAsset_def Let_def returning_first update_where_unique [OF pk cur]
      set_asset_restore db_okD [OF ok] cong del: if_weak_cong)

text \<open>
  When no stored user other than the system actor holds the system actor's email, an
  archived asset is restored and logged.
\<close>

lemma restoreAsset_restores:
  assumes ok: "db_ok e"
    and pk: "distinct (map a_id (assetsTable s))"
    and cur: "select_first (\<lambda>r. a_id r = aid) (assetsTable s) = Some a"
    and arch: "a_is_archived a"
    and free: "\<forall>u \<in> set (usersTable s). u_email u = ''system@internal.com'' \<longrightarrow> u_id u = systemUserId"
  shows "restoreAsset e aid s =
     (Inr (a\<lparr>a_is_archived := False, a_updated_at := clock e 0\<rparr>),
      s\<lparr>assetsTable := map (\<lambda>r. if a_id r = aid
            then a\<lparr>a_is_archived := False, a_updated_at := clock e 0\<rparr> else r) (assetsTable s),
        usersTable := (if \<exists>u \<in> set (usersTable s). u_id u = systemUserId then usersTable s
                       else usersTable s @ [system_user (clock e 1)]),
        userActivityLogsTable := userActivityLogsTable s
           @ [restore_log e aid (a\<lparr>a_is_archived := False, a_updated_at := clock e 0\<rparr>)]\<rparr>)"
proof (cases "\<exists>u \<in> set (usersTable s). u_id u = systemUserId")
  case True
  then have "filter (\<lambda>u. u_id u = systemUserId) (usersTable s) \<noteq> []"
    by (auto simp: filter_empty_conv)
  with True show ?thesis
    unfolding restoreAsset_run [OF ok pk cur arch]
    by (simp add: log_restoration_def Let_def db_okD [OF ok])
next
  case False
  then have none: "filter (\<lambda>u. u_id u = systemUserId) (usersTable s) = []"
    by (auto simp: filter_empty_conv)
  have "\<not> list_ex (\<lambda>r. u_id r = systemUserId \<or> u_email r = ''system@internal.com'') (usersTable s)"
    using False free by (auto simp: list_ex_iff)
  then have ins: "insert_user (system_user now) (usersTable s)
      = Inr (usersTable s @ [system_user now])" for now
    by (simp add: insert_user_def system_user_def)
  from False show ?thesis
    unfolding restoreAsset_run [OF ok pk cur arch]
    by (simp add: log_restoration_def Let_def db_okD [OF ok] none ins)
qed

lemma restoreAsset_example:
  "restoreAsset env_ok ''Z'' store_Z =
     (Inr (asset_Z\<lparr>a_is_archived := False, a_updated_at := 5000\<rparr>),
      store_Z\<lparr>assetsTable := [asset_Z\<lparr>a_is_archived := False, a_updated_at := 5000\<rparr>],
              usersTable := [user_1, system_user 5001],
              userActivityLogsTable :=
                [restore_log env_ok ''Z'' (asset_Z\<lparr>a_is_archived := False, a_updated_at := 5000\<rparr>)]\<rparr>)"
  using restoreAsset_restores [where e = env_ok and aid = "''Z''" and s = store_Z and a = asset_Z]
  by (simp add: example_defs restore_defs select_first_def db_ok_def systemUserId_def)

text \<open>
  C4 at a store in which an ordinary user holds the email
  \<open>system@internal.com\<close> and no user has the id \<open>system\<close>: the asset is un-archived,
  then the insert of the system user is refused on the unique email, the handler throws
  and no activity-log row is written.
\<close>

theorem restoreAsset_email_taken:
  "restoreAsset env_ok ''Z'' store_Z_taken =
     (Inl UniquenessViolation,
      store_Z_taken\<lparr>assetsTable := [asset_Z\<lparr>a_is_archived := False, a_updated_at := 5000\<rparr>]\<rparr>)
   \<and> userActivityLogsTable store_Z_taken = []"
  by (simp add: restoreAsset_def log_restoration_def insert_user_def system_user_def
      example_defs restore_defs select_first_def Let_def update_where_def returning_def
      set_asset_def no_update_def systemUserId_def)

section \<open>deleteAsset: the cascade and its steps\<close>

lemmas delete_defs = history_R_def maintenance_R_def store_D_def env_fail_def

text \<open>
  C5, as stated, at a run in which the delete of the asset row (store operation 4)
  rejects: the handler throws, yet the complaints, ledger rows and maintenance
  schedules of the asset are gone while the asset row is still stored. The deletes are
  not one atomic unit.
\<close>

theorem deleteAsset_not_atomic_counterexample:
  "deleteAsset (env_fail 4) ''R'' True store_D =
     (Inl StoreFailure,
      store_D\<lparr>complaintsTable := [complaint_3], assetHistoryTable := [],
              maintenanceSchedulesTable := []\<rparr>)
   \<and> assetsTable store_D = [asset_A, asset_R]
   \<and> complaintsTable store_D = [complaint_1, complaint_2, complaint_3]"
  by (simp add: deleteAsset_def delete_where_def Let_def example_defs complaint_defs
      restore_defs delete_defs)

text \<open>
  C5, amended. For the id of a stored asset and with every store operation succeeding,
  \<open>deleteAsset(id, true)\<close> reports success and leaves the store without the
  complaints, ledger rows and maintenance schedules that reference the id and without
  the asset row, every other row and table being as before: zero dependent rows remain.
  For an id that is not stored, \<open>deleteAsset\<close> returns \<open>success = false\<close> without an
  error and without writing, on the soft and on the permanent path. (The four deletes
  are successive store operations; nothing is said about a run in which one rejects.)
\<close>

theorem deleteAsset_cascade:
  assumes ok: "db_ok e"
  shows "((\<exists>a \<in> set (assetsTable s). a_id a = aid) \<longrightarrow>
           (\<exists>s'. deleteAsset e aid True s = (Inr True, s')
              \<and> s' = s\<lparr>complaintsTable := filter (\<lambda>c. c_asset_id c \<noteq> aid) (complaintsTable s),
                       assetHistoryTable := filter (\<lambda>h. h_asset_id h \<noteq> aid) (assetHistoryTable s),
                       maintenanceSchedulesTable :=
                         filter (\<lambda>m. m_asset_id m \<noteq> aid) (maintenanceSchedulesTable s),
                       assetsTable := filter (\<lambda>a. a_id a \<noteq> aid) (assetsTable s)\<rparr>
              \<and> (\<forall>c \<in> set (complaintsTable s'). c_asset_id c \<noteq> aid)
              \<and> (\<forall>h \<in> set (assetHistoryTable s'). h_asset_id h \<noteq> aid)
              \<and> (\<forall>m \<in> set (maintenanceSchedulesTable s'). m_asset_id m \<noteq> aid)
              \<and> (\<forall>a \<in> set (assetsTable s'). a_id a \<noteq> aid)))
      \<and> (\<not> (\<exists>a \<in> set (assetsTable s). a_id a = aid) \<longrightarrow>
           deleteAsset e aid permanent s = (Inr False, s))"
proof (cases "\<exists>a \<in> set (assetsTable s). a_id a = aid")
  case True
  then have "filter (\<lambda>a. a_id a = aid) (assetsTable s) \<noteq> []"
    by (auto simp: filter_empty_conv)
  then have "deleteAsset e aid True s =
      (Inr True, s\<lparr>complaintsTable := filter (\<lambda>c. c_asset_id c \<noteq> aid) (complaintsTable s),
                       assetHistoryTable := filter (\<lambda>h. h_asset_id h \<noteq> aid) (assetHistoryTable s),
                       maintenanceSchedulesTable :=
                         filter (\<lambda>m. m_asset_id m \<noteq> aid) (maintenanceSchedulesTable s),
                       assetsTable := filter (\<lambda>a. a_id a \<noteq> aid) (assetsTable s)\<rparr>)"
    by (simp add: deleteAsset_def delete_where_def Let_def db_okD [OF ok])
  with True show ?thesis by simp
next
  case False
  then have "filter (\<lambda>a. a_id a = aid) (assetsTable s) = []"
    by (auto simp: filter_empty_conv)
  then have "deleteAsset e aid permanent s = (Inr False, s)"
    by (simp add: deleteAsset_def db_okD [OF ok])
  with False show ?thesis by simp
qed

theorem deleteAsset_cascade_witness:
  "deleteAsset env_ok ''R'' True store_D =
     (Inr True, store_D\<lparr>complaintsTable := [complaint_3], assetHistoryTable := [],
                        maintenanceSchedulesTable := [], assetsTable := [asset_A]\<rparr>)
   \<and> deleteAsset env_ok ''Q'' True store_D = (Inr False, store_D)
   \<and> deleteAsset env_ok ''Q'' False store_D = (Inr False, store_D)"
  using deleteAsset_cascade [where e = env_ok and aid = "''R''" and s = store_D]
    deleteAsset_cascade [where e = env_ok and aid = "''Q''" and s = store_D
      and permanent = True]
    deleteAsset_cascade [where e = env_ok and aid = "''Q''" and s = store_D
      and permanent = False]
  by (simp add: db_ok_def example_defs complaint_defs restore_defs delete_defs)

section \<open>createAsset: the activity log is best effort\<close>

lemma try_log_creation_found:
  assumes "\<exists>u \<in> set (usersTable s). u_id u = owner"
  shows "try_log_creation e owner asset s =
     (if db_fails e 1 \<or> db_fails e 2 then Inl StoreFailure
      else Inr (s\<lparr>userActivityLogsTable :=
                    userActivityLogsTable s @ [create_log e owner asset]\<rparr>))"
proof -
  from assms have "filter (\<lambda>u. u_id u = owner) (usersTable s) \<noteq> []"
    by (auto simp: filter_empty_conv)
  then have "0 < length (take 1 (filter (\<lambda>u. u_id u = owner) (usersTable s)))"
    by (cases "filter (\<lambda>u. u_id u = owner) (usersTable s)") auto
  then show ?thesis by (simp add: try_log_creation_def)
qed

text \<open>
  C6. Let the insert of the asset row succeed. Then \<open>createAsset\<close> returns the
  persisted asset, whatever becomes of the two store operations of the logging block:
  a rejection there is caught and leaves the asset stored and the activity log as it
  was. If moreover the owner is a non-empty string that is the id of a stored active
  user and the logging block's operations succeed, the activity log grows by exactly
  one row, tagged \<open>CREATE\<close> and attributed to that user.
\<close>

theorem createAsset_logs_best_effort:
  assumes ins: "\<not> db_fails e 0"
    and own: "ca_owner i = Some owner" "owner \<noteq> []"
    and usr: "\<exists>u \<in> set (usersTable s). u_id u = owner \<and> u_is_active u"
  shows "(\<exists>s'. createAsset e i s = (Inr (new_asset e i), s')
            \<and> assetsTable s' = assetsTable s @ [new_asset e i]
            \<and> (\<not> db_fails e 1 \<and> \<not> db_fails e 2 \<longrightarrow>
                  s' = s\<lparr>assetsTable := assetsTable s @ [new_asset e i],
                         userActivityLogsTable := userActivityLogsTable s
                            @ [create_log e owner (new_asset e i)]\<rparr>)
            \<and> (db_fails e 1 \<or> db_fails e 2 \<longrightarrow>
                  s' = s\<lparr>assetsTable := assetsTable s @ [new_asset e i]\<rparr>))
       \<and> l_action (create_log e owner (new_asset e i)) = ''CREATE''
       \<and> l_user_id (create_log e owner (new_asset e i)) = owner
       \<and> l_entity_id (create_log e owner (new_asset e i)) = Some (a_id (new_asset e i))"
proof -
  from usr have found: "\<exists>u \<in> set (usersTable (s\<lparr>assetsTable := assetsTable s @ [new_asset e i]\<rparr>)).
      u_id u = owner" by auto
  show ?thesis
    using ins own
    by (simp add: createAsset_def log_creation_def Let_def try_log_creation_found [OF found]
        create_log_def)
qed

theorem createAsset_logs_best_effort_witness:
  "createAsset env_ok input_create store_D =
     (Inr (new_asset env_ok input_create),
      store_D\<lparr>assetsTable := [asset_A, asset_R, new_asset env_ok input_create],
              userActivityLogsTable := [create_log env_ok ''u1'' (new_asset env_ok input_create)]\<rparr>)
   \<and> createAsset (env_fail 2) input_create store_D =
     (Inr (new_asset (env_fail 2) input_create),
      store_D\<lparr>assetsTable := [asset_A, asset_R, new_asset (env_fail 2) input_create]\<rparr>)"
  using createAsset_logs_best_effort [where e = env_ok and i = input_create and s = store_D
      and owner = "''u1''"]
    createAsset_logs_best_effort [where e = "env_fail 2" and i = input_create and s = store_D
      and owner = "''u1''"]
  by (simp add: example_defs complaint_defs restore_defs delete_defs input_create_def)

section \<open>getAssets: the owner filter\<close>

lemmas list_defs = owner_only_def asset_B_def asset_N_def store_L_def

lemma getAssets_conj:
  "getAssets ilike e (Some f) s =
    (case category_cond f of
       Inl err \<Rightarrow> Inl StoreFailure
     | Inr cat \<Rightarrow>
        (case condition_cond f of
           Inl err \<Rightarrow> Inl StoreFailure
         | Inr cond \<Rightarrow>
            if db_fails e 0 then Inl StoreFailure
            else Inr (filter (\<lambda>a. list_all (\<lambda>p. p a) (search_cond ilike f)
                                 \<and> list_all (\<lambda>p. p a) cat \<and> list_all (\<lambda>p. p a) cond
                                 \<and> list_all (\<lambda>p. p a) (owner_cond f)
                                 \<and> list_all (\<lambda>p. p a) (archived_cond f)) (assetsTable s))))"
  by (auto simp: getAssets_def Let_def split: sum.splits)

lemma conds_owner_irrelevant:
  "search_cond ilike (f\<lparr>f_owner := ow\<rparr>) = search_cond ilike f"
  "category_cond (f\<lparr>f_owner := ow\<rparr>) = category_cond f"
  "condition_cond (f\<lparr>f_owner := ow\<rparr>) = condition_cond f"
  "archived_cond (f\<lparr>f_owner := ow\<rparr>) = archived_cond f"
  by (simp_all add: search_cond_def category_cond_def condition_cond_def archived_cond_def)

lemma owner_cond_cases:
  "owner_cond (f\<lparr>f_owner := None\<rparr>) = []"
  "owner_cond (f\<lparr>f_owner := Some ''''\<rparr>) = [\<lambda>a. a_owner a = None]"
  "owner_cond (f\<lparr>f_owner := Some ''null''\<rparr>) = [\<lambda>a. a_owner a = None]"
  by (simp_all add: owner_cond_def)

lemma conds_ignore_owner:
  "list_all (\<lambda>p. p (a\<lparr>a_owner := x\<rparr>)) (search_cond ilike f) = list_all (\<lambda>p. p a) (search_cond ilike f)"
  "category_cond f = Inr cat \<Longrightarrow> list_all (\<lambda>p. p (a\<lparr>a_owner := x\<rparr>)) cat = list_all (\<lambda>p. p a) cat"
  "condition_cond f = Inr cond \<Longrightarrow> list_all (\<lambda>p. p (a\<lparr>a_owner := x\<rparr>)) cond = list_all (\<lambda>p. p a) cond"
  "list_all (\<lambda>p. p (a\<lparr>a_owner := x\<rparr>)) (archived_cond f) = list_all (\<lambda>p. p a) (archived_cond f)"
  by (auto simp: search_cond_def category_cond_def condition_cond_def archived_cond_def
      split: option.splits if_splits)

text \<open>
  C7. For every store, every other filter and every outcome of the store operation:
  the query with owner \<open>''\<close> and the query with owner \<open>'null'\<close> return the same
  result; that result is the result of the query without an owner key, reduced to the
  rows whose owner is \<open>NULL\<close> (with no other filter: exactly the assets whose owner is
  \<open>NULL\<close>); and the query without an owner key applies no owner filter: rewriting the
  owners of the stored rows rewrites the owners in its result and changes nothing else.
\<close>

theorem getAssets_owner_sentinels:
  "getAssets ilike e (Some (f\<lparr>f_owner := Some ''''\<rparr>)) s
     = getAssets ilike e (Some (f\<lparr>f_owner := Some ''null''\<rparr>)) s
   \<and> getAssets ilike e (Some (f\<lparr>f_owner := Some ''''\<rparr>)) s
     = map_sum id (filter (\<lambda>a. a_owner a = None))
         (getAssets ilike e (Some (f\<lparr>f_owner := None\<rparr>)) s)
   \<and> (\<not> db_fails e 0 \<longrightarrow>
        getAssets ilike e (Some (owner_only (Some ''''))) s
          = Inr (filter (\<lambda>a. a_owner a = None) (assetsTable s))
      \<and> getAssets ilike e (Some (owner_only None)) s = Inr (assetsTable s)
      \<and> getAssets ilike e None s = Inr (assetsTable s))
   \<and> getAssets ilike e (Some (f\<lparr>f_owner := None\<rparr>))
        (s\<lparr>assetsTable := map (\<lambda>a. a\<lparr>a_owner := g a\<rparr>) (assetsTable s)\<rparr>)
     = map_sum id (map (\<lambda>a. a\<lparr>a_owner := g a\<rparr>))
         (getAssets ilike e (Some (f\<lparr>f_owner := None\<rparr>)) s)"
proof -
  have same: "getAssets ilike e (Some (f\<lparr>f_owner := Some ''''\<rparr>)) s
     = getAssets ilike e (Some (f\<lparr>f_owner := Some ''null''\<rparr>)) s"
    by (simp add: getAssets_conj conds_owner_irrelevant owner_cond_cases
        cong: sum.case_cong if_cong)
  have null: "getAssets ilike e (Some (f\<lparr>f_owner := Some ''''\<rparr>)) s
     = map_sum id (filter (\<lambda>a. a_owner a = None))
         (getAssets ilike e (Some (f\<lparr>f_owner := None\<rparr>)) s)"
    by (auto simp: getAssets_conj conds_owner_irrelevant owner_cond_cases conj_commute
        split: sum.splits intro: filter_cong cong: sum.case_cong if_cong)
  have plain: "getAssets ilike e (Some (owner_only (Some ''''))) s
          = Inr (filter (\<lambda>a. a_owner a = None) (assetsTable s))
      \<and> getAssets ilike e (Some (owner_only None)) s = Inr (assetsTable s)
      \<and> getAssets ilike e None s = Inr (assetsTable s)" if "\<not> db_fails e 0"
    using that
    by (simp add: getAssets_conj getAssets_def owner_only_def search_cond_def category_cond_def
        condition_cond_def owner_cond_def archived_cond_def)
  have indep: "getAssets ilike e (Some (f\<lparr>f_owner := None\<rparr>))
        (s\<lparr>assetsTable := map (\<lambda>a. a\<lparr>a_owner := g a\<rparr>) (assetsTable s)\<rparr>)
     = map_sum id (map (\<lambda>a. a\<lparr>a_owner := g a\<rparr>))
         (getAssets ilike e (Some (f\<lparr>f_owner := None\<rparr>)) s)"
    by (auto simp: getAssets_conj conds_owner_irrelevant owner_cond_cases filter_map o_def
        conds_ignore_owner split: sum.splits intro!: filter_cong arg_cong [where f = "map _"]
        cong: sum.case_cong if_cong)
  show ?thesis using same null plain indep by blast
qed

theorem getAssets_owner_sentinels_witness:
  "getAssets (\<lambda>p x. True) env_ok (Some (owner_only (Some ''''))) store_L = Inr [asset_A, asset_Z]
   \<and> getAssets (\<lambda>p x. True) env_ok (Some (owner_only None)) store_L
       = Inr [asset_A, asset_B, asset_N, asset_Z]
   \<and> getAssets (\<lambda>p x. True) env_ok None store_L = Inr [asset_A, asset_B, asset_N, asset_Z]"
  using getAssets_owner_sentinels [where ilike = "\<lambda>p x. True" and e = env_ok and s = store_L]
  by (simp add: example_defs restore_defs list_defs)

section \<open>sendNotificationEmail: validation before dispatch\<close>

lemmas note_defs = mail_env_0_def note_ok_def note_no_recipient_def note_blank_subject_def
  note_blank_body_def note_bad_type_def

lemma trim_empty_iff: "(trim s = []) = blank s"
proof
  assume "trim s = []"
  then have all: "\<forall>c \<in> set (dropWhile js_ws s). js_ws c"
    by (simp add: trim_def dropWhile_eq_Nil_conv)
  have "dropWhile js_ws s = []"
  proof (rule ccontr)
    assume ne: "dropWhile js_ws s \<noteq> []"
    then have "\<not> js_ws (hd (dropWhile js_ws s))" by (rule hd_dropWhile)
    moreover from ne have "hd (dropWhile js_ws s) \<in> set (dropWhile js_ws s)" by simp
    ultimately show False using all by blast
  qed
  then show "blank s" by (simp add: blank_def dropWhile_eq_Nil_conv)
next
  assume "blank s"
  then have d: "dropWhile js_ws s = []" by (simp add: blank_def dropWhile_eq_Nil_conv)
  show "trim s = []" unfolding trim_def d by simp
qed

text \<open>A well-formed notification is dispatched once.\<close>

lemma sendNotificationEmail_dispatches:
  "sendNotificationEmail mail_env_0 note_ok =
     (\<lparr>r_success = True,
       r_messageId = Some ''<1700000000000-k3x9q2a1b@asset-management.com>'',
       r_error = None\<rparr>,
      [\<lparr>o_to = [''ann@example.com''], o_subject = ''[Asset Management] Repair'',
        o_html = \<lparr>d_title = ''Repair'', d_alertClass = ''alert alert-status'',
                  d_icon = [0x1F4CA], d_body = ''Router R is fixed''\<rparr>\<rparr>])"
  by (simp add: sendNotificationEmail_def note_defs trim_def js_ws_def getEmailTemplate_def
      mockSendEmail_def Let_def)

text \<open>
  C9. A notification with an empty recipient list, a blank (empty or white-space-only)
  subject, a blank body, or a type outside \<open>complaint\<close>, \<open>maintenance\<close>,
  \<open>status_change\<close> is answered with a failure result, and the mail collaborator is not
  called.
\<close>

theorem sendNotificationEmail_validates:
  assumes "n_to n = [] \<or> blank (n_subject n) \<or> blank (n_body n)
     \<or> n_type n \<notin> {''complaint'', ''maintenance'', ''status_change''}"
  shows "snd (sendNotificationEmail me n) = []
     \<and> r_success (fst (sendNotificationEmail me n)) = False
     \<and> r_error (fst (sendNotificationEmail me n)) \<noteq> None"
  using assms
  by (auto simp: sendNotificationEmail_def failure_def trim_empty_iff)

theorem sendNotificationEmail_validates_witness:
  "sendNotificationEmail mail_env_0 note_no_recipient = (failure ''No recipients specified'', [])
   \<and> sendNotificationEmail mail_env_0 note_blank_subject = (failure ''Subject cannot be empty'', [])
   \<and> sendNotificationEmail mail_env_0 note_blank_body = (failure ''Email body cannot be empty'', [])
   \<and> sendNotificationEmail mail_env_0 note_bad_type = (failure ''Invalid notification type'', [])
   \<and> snd (sendNotificationEmail mail_env_0 note_no_recipient) = []
   \<and> snd (sendNotificationEmail mail_env_0 note_blank_subject) = []
   \<and> snd (sendNotificationEmail mail_env_0 note_blank_body) = []
   \<and> snd (sendNotificationEmail mail_env_0 note_bad_type) = []"
  using sendNotificationEmail_validates [where me = mail_env_0 and n = note_no_recipient]
    sendNotificationEmail_validates [where me = mail_env_0 and n = note_blank_subject]
    sendNotificationEmail_validates [where me = mail_env_0 and n = note_blank_body]
    sendNotificationEmail_validates [where me = mail_env_0 and n = note_bad_type]
  by (simp add: sendNotificationEmail_def note_defs blank_def trim_def js_ws_def failure_def)

section \<open>getDashboardStats: counts, groups and the maintenance window\<close>

lemmas dashboard_defs = env_midnight_def maintenance_M_def store_M_def

lemma inj_condition_str: "(condition_str a = condition_str b) = (a = b)"
  by (cases a; cases b; simp)

lemma inj_category_str: "(category_str a = category_str b) = (a = b)"
  by (cases a; cases b; simp)

lemma to_record_at:
  assumes inj: "\<And>a b. (str a = str b) = (a = b)"
  shows "fold (\<lambda>(k, n) m. m(str k \<mapsto> n)) (map (\<lambda>k. (k, cnt k)) ks) m (str c)
     = (if c \<in> set ks then Some (cnt c) else m (str c))"
  by (induction ks arbitrary: m) (auto simp: inj)

lemma to_record_other:
  assumes "\<And>k. x \<noteq> str k"
  shows "fold (\<lambda>(k, n) m. m(str k \<mapsto> n)) rows m x = m x"
  using assms by (induction rows arbitrary: m) (auto simp: fun_upd_def)

lemma group_record_at:
  assumes inj: "\<And>a b. (str a = str b) = (a = b)"
  shows "to_record str (group_count key t) (str c)
     = (if c \<in> key ` set t then Some (length (filter (\<lambda>r. key r = c) t)) else None)"
  unfolding to_record_def group_count_def by (simp add: to_record_at [OF inj])


lemma live_group_at:
  assumes inj: "\<And>a b. (str a = str b) = (a = b)"
  shows "to_record str (group_count key (filter (\<lambda>a. \<not> a_is_archived a) t)) (str c)
     = (if \<exists>a \<in> set t. \<not> a_is_archived a \<and> key a = c
        then Some (length (filter (\<lambda>a. \<not> a_is_archived a \<and> key a = c) t)) else None)"
proof -
  have "length (filter (\<lambda>r. key r = c) (filter (\<lambda>a. \<not> a_is_archived a) t))
      = length (filter (\<lambda>a. \<not> a_is_archived a \<and> key a = c) t)"
    by (simp add: conj_commute)
  moreover have "(c \<in> key ` set (filter (\<lambda>a. \<not> a_is_archived a) t))
      = (\<exists>a \<in> set t. \<not> a_is_archived a \<and> key a = c)"
    by auto
  ultimately show ?thesis by (simp only: group_record_at [OF inj])
qed

lemma group_other:
  assumes "\<And>k. x \<noteq> str k"
  shows "to_record str rows x = None"
  unfolding to_record_def using assms by (simp add: to_record_other)

text \<open>On an empty store every count is zero and both maps are empty.\<close>

lemma getDashboardStats_empty:
  assumes "db_ok e"
  shows "getDashboardStats e empty_store =
     Inr \<lparr>total_assets = 0, assets_by_condition = Map.empty, assets_by_category = Map.empty,
          pending_complaints = 0, upcoming_maintenance = 0, recent_activities = 0,
          archived_assets = 0\<rparr>"
  by (simp add: getDashboardStats_def empty_store_def db_okD [OF assms] group_count_def
      to_record_def)

text \<open>
  The two maps count the assets that are not archived, per tag; a tag that no such
  asset carries, and a key that is no tag, is absent. The pending complaints are the
  complaints that are not \<open>RESOLVED\<close>.
\<close>

lemma getDashboardStats_groups:
  assumes "db_ok e"
  shows "\<exists>st. getDashboardStats e s = Inr st
     \<and> (\<forall>c. assets_by_condition st (condition_str c) =
            (if \<exists>a \<in> set (assetsTable s). \<not> a_is_archived a \<and> a_condition a = c
             then Some (length (filter (\<lambda>a. \<not> a_is_archived a \<and> a_condition a = c) (assetsTable s)))
             else None))
     \<and> (\<forall>k. assets_by_category st (category_str k) =
            (if \<exists>a \<in> set (assetsTable s). \<not> a_is_archived a \<and> a_category a = k
             then Some (length (filter (\<lambda>a. \<not> a_is_archived a \<and> a_category a = k) (assetsTable s)))
             else None))
     \<and> (\<forall>x. (\<forall>c. x \<noteq> condition_str c) \<longrightarrow> assets_by_condition st x = None)
     \<and> (\<forall>x. (\<forall>k. x \<noteq> category_str k) \<longrightarrow> assets_by_category st x = None)
     \<and> pending_complaints st = length (filter (\<lambda>c. c_status c \<noteq> CS_RESOLVED) (complaintsTable s))
     \<and> total_assets st = length (assetsTable s)
     \<and> archived_assets st = length (filter a_is_archived (assetsTable s))"
  unfolding getDashboardStats_def Let_def
  by (simp add: db_okD [OF assms] live_group_at [OF inj_condition_str]
      live_group_at [OF inj_category_str] group_other)


text \<open>
  When the clock reads 0 and 1 return the same instant, the upcoming schedules are the
  open schedules in the inclusive window from \<open>now\<close> to \<open>now\<close> plus 30 days.
\<close>

lemma getDashboardStats_window:
  assumes "db_ok e" and "clock e 1 = clock e 0"
  shows "\<exists>st. getDashboardStats e s = Inr st
     \<and> upcoming_maintenance st =
         length (filter (\<lambda>m. \<not> m_is_completed m \<and> clock e 0 \<le> m_scheduled_date m
                              \<and> m_scheduled_date m \<le> clock e 0 + 30 * msPerDay)
                   (maintenanceSchedulesTable s))"
  using assms(2)
  by (simp add: getDashboardStats_def db_okD [OF assms(1)] Let_def thirtyDaysFromNow_def
      setDate_def)

lemma getDate_jan31: "getDate 1706745599999 = 31"
  unfolding getDate_def msPerDay_def Let_def by simp

lemma getDate_feb1: "getDate 1706745600000 = 1"
  unfolding getDate_def msPerDay_def Let_def by simp

lemma thirtyDaysFromNow_midnight: "thirtyDaysFromNow env_midnight = 1711929600000"
  by (simp add: thirtyDaysFromNow_def setDate_def env_midnight_def getDate_jan31 getDate_feb1
      msPerDay_def)

lemma sevenDaysAgo_midnight: "sevenDaysAgo env_midnight = 1708732800000"
  by (simp add: sevenDaysAgo_def setDate_def env_midnight_def getDate_jan31 getDate_feb1
      msPerDay_def)

text \<open>
  C8 at clock reads that straddle a month's end. \<open>thirtyDaysFromNow\<close> takes month and
  time of day from the second read (1 February, 00:00) and the day of the month from
  the first (31) plus 30, which gives 1 April, 60 days and a millisecond after \<open>now\<close>:
  the open schedule of 15 March, more than 30 days after \<open>now\<close>, is counted as
  upcoming.
\<close>

theorem getDashboardStats_window_overrun:
  "map_sum id upcoming_maintenance (getDashboardStats env_midnight store_M) = Inr 1
   \<and> thirtyDaysFromNow env_midnight = clock env_midnight 0 + 60 * msPerDay + 1
   \<and> clock env_midnight 0 + 30 * msPerDay < m_scheduled_date maintenance_M"
  unfolding getDashboardStats_def Let_def thirtyDaysFromNow_midnight sevenDaysAgo_midnight
  by (simp add: msPerDay_def example_defs restore_defs dashboard_defs)

end
